theory Spec2Isabelle
  imports Main
begin

section \<open>Values of the Python runtime\<close>

text \<open>
  The installer is one Python script, \<^verbatim>\<open>install.py\<close>. Its functions are embedded below under
  their own names. Text is a \<^typ>\<open>string\<close>; the operations on text are those of Python's
  \<^verbatim>\<open>str\<close> on ASCII text (whitespace and digits beyond ASCII are not part of the model).
  An exception is a value: every function that can raise returns \<open>Inl\<close> of the exception.
\<close>

datatype py_seq = PyTuple "string list" | PyList "string list"

fun items :: "py_seq \<Rightarrow> string list" where
  "items (PyTuple xs) = xs"
| "items (PyList xs) = xs"

datatype py_exception =
    SystemExit int
  | IndexError
  | ValueError
  | CalledProcessError py_seq int
  | FileNotFoundError
  | FileExistsError
  | NotADirectoryError
  | IsADirectoryError
  | PermissionError
  | SameFileError

subsection \<open>Whitespace, splitting and stripping\<close>

text \<open>\<^verbatim>\<open>str.isspace\<close> on ASCII: TAB, LF, VT, FF, CR, the separators FS, GS, RS, US, and space.\<close>

definition str_isspace :: "char \<Rightarrow> bool" where
  "str_isspace c = (let n = (of_char c :: nat) in (9 \<le> n \<and> n \<le> 13) \<or> (28 \<le> n \<and> n \<le> 32))"

text \<open>\<^verbatim>\<open>s.split()\<close>: the maximal runs of non-whitespace characters, in order.\<close>

fun fields :: "string \<Rightarrow> string \<Rightarrow> string list" where
  "fields cur [] = (if cur = [] then [] else [cur])"
| "fields cur (c # cs) =
     (if str_isspace c then (if cur = [] then fields [] cs else cur # fields [] cs)
      else fields (cur @ [c]) cs)"

definition str_split :: "string \<Rightarrow> string list" where
  "str_split s = fields [] s"

text \<open>\<^verbatim>\<open>s.split(sep)\<close> for a separator of one character: never empty, one more item than
  there are separators.\<close>

fun split_at :: "char \<Rightarrow> string \<Rightarrow> string \<Rightarrow> string list" where
  "split_at sep cur [] = [cur]"
| "split_at sep cur (c # cs) =
     (if c = sep then cur # split_at sep [] cs else split_at sep (cur @ [c]) cs)"

definition str_split_sep :: "char \<Rightarrow> string \<Rightarrow> string list" where
  "str_split_sep sep s = split_at sep [] s"

text \<open>\<^verbatim>\<open>s.lstrip(chars)\<close> removes leading characters that occur in \<open>chars\<close>; the argument is a
  set of characters, not a prefix.\<close>

definition str_lstrip :: "string \<Rightarrow> string \<Rightarrow> string" where
  "str_lstrip chars s = dropWhile (\<lambda>c. c \<in> set chars) s"

text \<open>\<^verbatim>\<open>s.splitlines()\<close> on ASCII: a line ends at LF, VT, FF, CR (CR LF counts once), FS, GS
  or RS; a final line end adds no empty line.\<close>

definition is_linebreak :: "char \<Rightarrow> bool" where
  "is_linebreak c = (let n = (of_char c :: nat) in (10 \<le> n \<and> n \<le> 13) \<or> (28 \<le> n \<and> n \<le> 30))"

fun lines_from :: "string \<Rightarrow> string \<Rightarrow> string list" where
  "lines_from cur [] = (if cur = [] then [] else [cur])"
| "lines_from cur [c] = (if is_linebreak c then [cur] else [cur @ [c]])"
| "lines_from cur (c # d # cs) =
     (if c = CHR 0x0D \<and> d = CHR 0x0A then cur # lines_from [] cs
      else if is_linebreak c then cur # lines_from [] (d # cs)
      else lines_from (cur @ [c]) (d # cs))"

definition str_splitlines :: "string \<Rightarrow> string list" where
  "str_splitlines s = lines_from [] s"

text \<open>\<^verbatim>\<open>xs[i]\<close> for an index that is not negative.\<close>

definition py_index :: "'a list \<Rightarrow> nat \<Rightarrow> py_exception + 'a" where
  "py_index xs i = (if i < length xs then Inr (xs ! i) else Inl IndexError)"

fun str_join :: "string \<Rightarrow> string list \<Rightarrow> string" where
  "str_join sep [] = []"
| "str_join sep [x] = x"
| "str_join sep (x # y # ys) = x @ sep @ str_join sep (y # ys)"

subsection \<open>Integers and text\<close>

definition is_digit :: "char \<Rightarrow> bool" where
  "is_digit c = (let n = (of_char c :: nat) in 48 \<le> n \<and> n \<le> 57)"

definition digit_val :: "char \<Rightarrow> nat" where
  "digit_val c = of_char c - 48"

definition digit_char :: "nat \<Rightarrow> char" where
  "digit_char d = char_of (48 + d)"

text \<open>The body of a decimal literal after its first digit: digits, single underscores allowed
  between two digits. The result is the value and the number of digits read.\<close>

fun int_body :: "nat \<Rightarrow> nat \<Rightarrow> string \<Rightarrow> (nat \<times> nat) option" where
  "int_body acc k [] = Some (acc, k)"
| "int_body acc k [c] = (if is_digit c then Some (10 * acc + digit_val c, Suc k) else None)"
| "int_body acc k (c # d # cs) =
     (if c = CHR ''_'' then
        (if is_digit d then int_body (10 * acc + digit_val d) (Suc k) cs else None)
      else if is_digit c then int_body (10 * acc + digit_val c) (Suc k) (d # cs)
      else None)"

text \<open>The whitespace \<^verbatim>\<open>int\<close> strips from ASCII text is C's: TAB to CR, and space.\<close>

definition c_isspace :: "char \<Rightarrow> bool" where
  "c_isspace c = (let n = (of_char c :: nat) in (9 \<le> n \<and> n \<le> 13) \<or> n = 32)"

definition c_strip :: "string \<Rightarrow> string" where
  "c_strip s = rev (dropWhile c_isspace (rev (dropWhile c_isspace s)))"

text \<open>\<^verbatim>\<open>int(s)\<close>: surrounding whitespace, one optional sign, a decimal literal. \<open>lim\<close> is the
  interpreter's limit on the number of digits (\<^verbatim>\<open>sys.get_int_max_str_digits()\<close>, 0 where there
  is none); it applies to literals of more than 640 digits.\<close>

definition py_int :: "nat \<Rightarrow> string \<Rightarrow> py_exception + int" where
  "py_int lim s =
     (let t = c_strip s;
          neg = (case t of [] \<Rightarrow> False | c # _ \<Rightarrow> c = CHR ''-'');
          body = (case t of [] \<Rightarrow> [] | c # r \<Rightarrow> if c = CHR ''-'' \<or> c = CHR ''+'' then r else t)
      in case body of
           [] \<Rightarrow> Inl ValueError
         | d # ds \<Rightarrow>
             if \<not> is_digit d then Inl ValueError
             else (case int_body (digit_val d) 1 ds of
                     None \<Rightarrow> Inl ValueError
                   | Some (n, k) \<Rightarrow>
                       if 640 < k \<and> 0 < lim \<and> lim < k then Inl ValueError
                       else Inr (if neg then - int n else int n)))"

text \<open>\<^verbatim>\<open>str(n)\<close> of an integer, as an f-string renders it.\<close>

fun dec :: "nat \<Rightarrow> string" where
  "dec n = (if n < 10 then [digit_char n] else dec (n div 10) @ [digit_char (n mod 10)])"

declare dec.simps [simp del]

definition str_int :: "int \<Rightarrow> string" where
  "str_int i = (if i < 0 then CHR ''-'' # dec (nat (- i)) else dec (nat i))"

text \<open>\<^verbatim>\<open>repr\<close> of the plain strings this script passes as command words (no quote, backslash
  or control character), and \<^verbatim>\<open>str\<close> of a tuple or list of them.\<close>

definition repr_str :: "string \<Rightarrow> string" where
  "repr_str s = [CHR 0x27] @ s @ [CHR 0x27]"

fun str_seq :: "py_seq \<Rightarrow> string" where
  "str_seq (PyList xs) = ''['' @ str_join '', '' (map repr_str xs) @ '']''"
| "str_seq (PyTuple xs) =
     ''('' @ str_join '', '' (map repr_str xs) @ (if length xs = 1 then '','' else '''') @ '')''"

section \<open>The host: paths, files, programs\<close>

text \<open>
  A \<^verbatim>\<open>pathlib.Path\<close> is its drive, its root and its components. The script only ever joins a
  plain name to a path and renders a path as text. The separator follows the platform flag
  that also decides \<^verbatim>\<open>IS_WINDOWS\<close>.
\<close>

datatype path = Path (drive: string) (root: string) (parts: "string list")

definition path_sep :: "bool \<Rightarrow> string" where
  "path_sep windows = (if windows then [CHR 0x5C] else ''/'')"

definition str_path :: "bool \<Rightarrow> path \<Rightarrow> string" where
  "str_path windows p =
     (if drive p = [] \<and> root p = [] \<and> parts p = [] then ''.''
      else drive p @ root p @ str_join (path_sep windows) (parts p))"

definition joinpath :: "path \<Rightarrow> string \<Rightarrow> path" where
  "joinpath p name = Path (drive p) (root p) (parts p @ [name])"

definition parent :: "path \<Rightarrow> path" where
  "parent p = Path (drive p) (root p) (butlast (parts p))"

definition basename :: "path \<Rightarrow> string" where
  "basename p = (if parts p = [] then [] else last (parts p))"

definition is_absolute :: "bool \<Rightarrow> path \<Rightarrow> bool" where
  "is_absolute windows p = (root p \<noteq> [] \<and> (windows \<longrightarrow> drive p \<noteq> []))"

text \<open>
  The machine state the script can change or observe changing: which executable names
  resolve on the search path, and the files. A file carries its permission bits, its
  modification time and its content; a directory its permission bits. Several paths may
  spell one file (a relative and an absolute path, a link): \<open>ident\<close> gives the entry a path
  stands for, and the files are kept by entry.
\<close>

datatype node = Dir nat | File nat nat string

record host =
  on_path :: "string \<Rightarrow> bool"
  ident :: "path \<Rightarrow> path"
  fs :: "path \<Rightarrow> node option"

definition lookup :: "host \<Rightarrow> path \<Rightarrow> node option" where
  "lookup h p = fs h (ident h p)"

definition path_exists :: "host \<Rightarrow> path \<Rightarrow> bool" where
  "path_exists h p = (lookup h p \<noteq> None)"

definition is_dir :: "host \<Rightarrow> path \<Rightarrow> bool" where
  "is_dir h p = (case lookup h p of Some (Dir m) \<Rightarrow> True | _ \<Rightarrow> False)"

text \<open>What a process may be allowed to do with an entry: read it, write it (for a
  directory: add a name to it), search it (look a name up in a directory), or act as its
  owner (set its permission bits and times).\<close>

datatype access = Read | Write | Search | Owner

datatype CompletedProcess = CompletedProcess (returncode: int) (stdout: string) (stderr: string)

text \<open>
  What is fixed when the interpreter starts: the platform name, whether standard output is a
  terminal, the environment variables, the home directory, the directory of the script,
  the interpreter's digit limit, the permission bits a new directory and a new file get,
  the time a written file is stamped with, what the operating system allows this process
  (for each kind of access, entry and permission bits of the entry), how a signal is
  named in the text of a \<^verbatim>\<open>CalledProcessError\<close>, how pathlib reads a text as a path, and
  what every external program does when it is run (its exit status and captured output,
  and the machine state it leaves).
\<close>

record proc_env =
  platform_system :: string
  stdout_isatty :: bool
  environ :: "string \<Rightarrow> string option"
  home :: path
  REPO_ROOT :: path
  int_max_str_digits :: nat
  new_dir_perm :: nat
  new_file_perm :: nat
  clock :: nat
  permits :: "access \<Rightarrow> path \<Rightarrow> nat \<Rightarrow> bool"
  died_with :: "int \<Rightarrow> string"
  path_of_text :: "string \<Rightarrow> path"
  programs :: "string list \<Rightarrow> path option \<Rightarrow> host \<Rightarrow> CompletedProcess \<times> host"

subsection \<open>Effects\<close>

text \<open>
  A run leaves a trace: every \<^verbatim>\<open>print\<close> call with its text and stream, every external command
  started, every change asked of the file system. \<open>Traceback\<close> is the interpreter's report
  of an uncaught exception on the error stream. A function of the script takes the machine
  state and returns its result or exception, the new state, and the events it added.
\<close>

datatype event =
    Stdout string
  | Stderr string
  | Spawn py_seq "path option"
  | Mkdir path
  | Copy2 path path
  | Chmod path nat
  | Traceback py_exception

type_synonym 'a prog = "host \<Rightarrow> (py_exception + 'a) \<times> host \<times> event list"

definition return :: "'a \<Rightarrow> 'a prog" where
  "return a h = (Inr a, h, [])"

definition raise :: "py_exception \<Rightarrow> 'a prog" where
  "raise e h = (Inl e, h, [])"

definition lift :: "py_exception + 'a \<Rightarrow> 'a prog" where
  "lift r h = (r, h, [])"

definition emit :: "event \<Rightarrow> unit prog" where
  "emit e h = (Inr (), h, [e])"

definition and_then :: "'a prog \<Rightarrow> ('a \<Rightarrow> 'b prog) \<Rightarrow> 'b prog" where
  "and_then m f h =
     (case m h of
        (Inl e, h1, ev1) \<Rightarrow> (Inl e, h1, ev1)
      | (Inr a, h1, ev1) \<Rightarrow> (case f a h1 of (r, h2, ev2) \<Rightarrow> (r, h2, ev1 @ ev2)))"

text \<open>\<^verbatim>\<open>try: m  except subprocess.CalledProcessError as e: handler\<close>\<close>

definition try_except_CalledProcessError ::
    "'a prog \<Rightarrow> (py_seq \<Rightarrow> int \<Rightarrow> 'a prog) \<Rightarrow> 'a prog" where
  "try_except_CalledProcessError m handler h =
     (case m h of
        (Inl (CalledProcessError cmd rc), h1, ev1) \<Rightarrow>
          (case handler cmd rc h1 of (r, h2, ev2) \<Rightarrow> (r, h2, ev1 @ ev2))
      | other \<Rightarrow> other)"

text \<open>\<^verbatim>\<open>str(e)\<close> of a \<^verbatim>\<open>CalledProcessError\<close>.\<close>

definition str_CalledProcessError :: "proc_env \<Rightarrow> py_seq \<Rightarrow> int \<Rightarrow> string" where
  "str_CalledProcessError E cmd rc =
     (if rc < 0 then ''Command '' @ repr_str (str_seq cmd) @ '' died with '' @ died_with E (- rc) @ ''.''
      else ''Command '' @ repr_str (str_seq cmd) @ '' returned non-zero exit status '' @ str_int rc @ ''.'')"

text \<open>
  Why a command cannot be started: the working directory asked for is missing, is no
  directory or may not be entered, or the executable does not resolve on the search path.
\<close>

definition spawn_error :: "proc_env \<Rightarrow> string \<Rightarrow> path option \<Rightarrow> host \<Rightarrow> py_exception option" where
  "spawn_error E exe cwd h =
     (case (case cwd of
              None \<Rightarrow> None
            | Some d \<Rightarrow>
                (case lookup h d of
                   None \<Rightarrow> Some FileNotFoundError
                 | Some (File pm mt c) \<Rightarrow> Some NotADirectoryError
                 | Some (Dir m) \<Rightarrow>
                     if permits E Search (ident h d) m then None else Some PermissionError)) of
        Some e \<Rightarrow> Some e
      | None \<Rightarrow> if on_path h exe then None else Some FileNotFoundError)"

text \<open>
  \<^verbatim>\<open>subprocess.run\<close>: a command that cannot be started raises the reason; one that starts
  runs to its end; with \<^verbatim>\<open>check\<close>, an exit status other than 0 raises
  \<^verbatim>\<open>CalledProcessError\<close>.
\<close>

definition subprocess_run :: "proc_env \<Rightarrow> py_seq \<Rightarrow> path option \<Rightarrow> bool \<Rightarrow> CompletedProcess prog" where
  "subprocess_run E cmd cwd check h =
     (case items cmd of
        [] \<Rightarrow> (Inl IndexError, h, [])
      | exe # _ \<Rightarrow>
          (case spawn_error E exe cwd h of
             Some e \<Rightarrow> (Inl e, h, [Spawn cmd cwd])
           | None \<Rightarrow>
               (case programs E (items cmd) cwd h of
                  (r, h1) \<Rightarrow>
                    if check \<and> returncode r \<noteq> 0
                    then (Inl (CalledProcessError cmd (returncode r)), h1, [Spawn cmd cwd])
                    else (Inr r, h1, [Spawn cmd cwd]))))"

subsection \<open>File operations\<close>

text \<open>
  A file operation takes the machine state and returns its result or exception and the
  state it leaves; an operation that raises may have changed the files before.
\<close>

type_synonym file_step = "host \<Rightarrow> (py_exception + unit) \<times> host"

text \<open>What keeps the entry of \<open>p\<close> from being looked up: the directory that holds it is
  missing, is no directory, or may not be searched. A path that is its own parent (a root,
  the current directory) is looked up directly.\<close>

definition parent_error :: "proc_env \<Rightarrow> host \<Rightarrow> path \<Rightarrow> py_exception option" where
  "parent_error E h p =
     (if parent p = p then None
      else (case lookup h (parent p) of
              None \<Rightarrow> Some FileNotFoundError
            | Some (File pm mt c) \<Rightarrow> Some NotADirectoryError
            | Some (Dir m) \<Rightarrow>
                if permits E Search (ident h (parent p)) m then None else Some PermissionError))"

text \<open>\<^verbatim>\<open>os.path.isdir\<close> and \<^verbatim>\<open>Path.is_dir\<close>: the entry can be looked up and is a directory.\<close>

definition isdir :: "proc_env \<Rightarrow> host \<Rightarrow> path \<Rightarrow> bool" where
  "isdir E h p = (parent_error E h p = None \<and> is_dir h p)"

text \<open>\<^verbatim>\<open>os.path.samefile\<close> as \<^verbatim>\<open>shutil\<close> calls it (an error counts as no): both entries can
  be looked up, both exist, and they are one entry.\<close>

definition samefile :: "proc_env \<Rightarrow> host \<Rightarrow> path \<Rightarrow> path \<Rightarrow> bool" where
  "samefile E h p q =
     (parent_error E h p = None \<and> parent_error E h q = None
      \<and> path_exists h p \<and> path_exists h q \<and> ident h p = ident h q)"

text \<open>\<^verbatim>\<open>os.mkdir\<close>\<close>

definition os_mkdir :: "proc_env \<Rightarrow> path \<Rightarrow> file_step" where
  "os_mkdir E p h =
     (case parent_error E h p of
        Some e \<Rightarrow> (Inl e, h)
      | None \<Rightarrow>
          if path_exists h p then (Inl FileExistsError, h)
          else (case lookup h (parent p) of
                  Some (Dir m) \<Rightarrow>
                    if permits E Write (ident h (parent p)) m
                    then (Inr (), h\<lparr>fs := (fs h)(ident h p \<mapsto> Dir (new_dir_perm E))\<rparr>)
                    else (Inl PermissionError, h)
                | _ \<Rightarrow> (Inl FileNotFoundError, h)))"

text \<open>\<^verbatim>\<open>Path.mkdir(parents=..., exist_ok=...)\<close>, as pathlib writes it: try \<^verbatim>\<open>os.mkdir\<close>; when the
  parent is missing and \<open>parents\<close> is set, make the parent and try once more; any other
  error is let through unless \<open>exist_ok\<close> is set and the path is a directory.\<close>

function Path_mkdir :: "proc_env \<Rightarrow> bool \<Rightarrow> bool \<Rightarrow> path \<Rightarrow> file_step" where
  "Path_mkdir E parents exist_ok p h =
     (case os_mkdir E p h of
        (Inr u, h1) \<Rightarrow> (Inr (), h1)
      | (Inl e, h1) \<Rightarrow>
          if e = FileNotFoundError then
            (if \<not> parents \<or> parent p = p then (Inl e, h1)
             else (case Path_mkdir E True True (parent p) h1 of
                     (Inl e1, h2) \<Rightarrow> (Inl e1, h2)
                   | (Inr u, h2) \<Rightarrow> Path_mkdir E False exist_ok p h2))
          else if \<not> exist_ok \<or> \<not> isdir E h1 p then (Inl e, h1)
          else (Inr (), h1))"
  by pat_completeness auto
termination
proof (relation "measure (\<lambda>(E, parents, exist_ok, p, h). 2 * length (parts p) + (if parents then 1 else 0))")
  fix E :: proc_env and parents exist_ok :: bool and p :: path and h h1 :: host
  assume "\<not> (\<not> parents \<or> parent p = p)"
  then have "parents" and "parts p \<noteq> []"
    by (cases p; auto simp: parent_def)+
  then show "((E, True, True, parent p, h1), (E, parents, exist_ok, p, h))
      \<in> measure (\<lambda>(E, parents, exist_ok, p, h). 2 * length (parts p) + (if parents then 1 else 0))"
    by (cases "parts p") (auto simp: parent_def)
qed auto

declare Path_mkdir.simps [simp del]

text \<open>Opening a file for reading: its permission bits, its time and its content.\<close>

definition open_read :: "proc_env \<Rightarrow> host \<Rightarrow> path \<Rightarrow> py_exception + (nat \<times> nat \<times> string)" where
  "open_read E h p =
     (case parent_error E h p of
        Some e \<Rightarrow> Inl e
      | None \<Rightarrow>
          (case lookup h p of
             None \<Rightarrow> Inl FileNotFoundError
           | Some (Dir m) \<Rightarrow>
               Inl (if platform_system E = ''Windows'' then PermissionError else IsADirectoryError)
           | Some (File pm mt c) \<Rightarrow>
               if permits E Read (ident h p) pm then Inr (pm, mt, c) else Inl PermissionError))"

text \<open>Opening a file for writing and writing \<open>c\<close>: an existing file keeps its permission
  bits, a new one is made in its directory; the file is stamped with the time of writing.\<close>

definition write_file :: "proc_env \<Rightarrow> path \<Rightarrow> string \<Rightarrow> file_step" where
  "write_file E p c h =
     (case parent_error E h p of
        Some e \<Rightarrow> (Inl e, h)
      | None \<Rightarrow>
          (case lookup h p of
             Some (Dir m) \<Rightarrow>
               (Inl (if platform_system E = ''Windows'' then PermissionError else IsADirectoryError), h)
           | Some (File pm mt c0) \<Rightarrow>
               if permits E Write (ident h p) pm
               then (Inr (), h\<lparr>fs := (fs h)(ident h p \<mapsto> File pm (clock E) c)\<rparr>)
               else (Inl PermissionError, h)
           | None \<Rightarrow>
               (case lookup h (parent p) of
                  Some (Dir m) \<Rightarrow>
                    if permits E Write (ident h (parent p)) m
                    then (Inr (), h\<lparr>fs := (fs h)(ident h p \<mapsto> File (new_file_perm E) (clock E) c)\<rparr>)
                    else (Inl PermissionError, h)
                | _ \<Rightarrow> (Inl FileNotFoundError, h))))"

text \<open>\<^verbatim>\<open>shutil.copystat\<close> for the time and the permission bits: the owner's business.\<close>

definition copystat :: "proc_env \<Rightarrow> nat \<Rightarrow> nat \<Rightarrow> path \<Rightarrow> file_step" where
  "copystat E pm mt p h =
     (case lookup h p of
        Some (File pm0 mt0 c) \<Rightarrow>
          if permits E Owner (ident h p) pm0
          then (Inr (), h\<lparr>fs := (fs h)(ident h p \<mapsto> File pm mt c)\<rparr>)
          else (Inl PermissionError, h)
      | Some (Dir m) \<Rightarrow>
          if permits E Owner (ident h p) m
          then (Inr (), h\<lparr>fs := (fs h)(ident h p \<mapsto> Dir pm)\<rparr>)
          else (Inl PermissionError, h)
      | None \<Rightarrow> (Inl FileNotFoundError, h))"

text \<open>\<^verbatim>\<open>shutil.copy2\<close>: a destination that is a directory means the file of the same name in
  it; source and destination must not be one file; the source is opened for reading, the
  destination written; then time and permission bits are copied.\<close>

definition copy2 :: "proc_env \<Rightarrow> path \<Rightarrow> path \<Rightarrow> file_step" where
  "copy2 E src dst h =
     (let dst1 = (if isdir E h dst then joinpath dst (basename src) else dst) in
      if samefile E h src dst1 then (Inl SameFileError, h)
      else (case open_read E h src of
              Inl e \<Rightarrow> (Inl e, h)
            | Inr (pm, mt, c) \<Rightarrow>
                (case write_file E dst1 c h of
                   (Inl e, h1) \<Rightarrow> (Inl e, h1)
                 | (Inr u, h1) \<Rightarrow> copystat E pm mt dst1 h1)))"

text \<open>\<^verbatim>\<open>Path.chmod\<close>\<close>

definition chmod :: "proc_env \<Rightarrow> path \<Rightarrow> nat \<Rightarrow> file_step" where
  "chmod E p m h =
     (case parent_error E h p of
        Some e \<Rightarrow> (Inl e, h)
      | None \<Rightarrow>
          (case lookup h p of
             None \<Rightarrow> (Inl FileNotFoundError, h)
           | Some (Dir m0) \<Rightarrow>
               if permits E Owner (ident h p) m0
               then (Inr (), h\<lparr>fs := (fs h)(ident h p \<mapsto> Dir m)\<rparr>)
               else (Inl PermissionError, h)
           | Some (File m0 mt c) \<Rightarrow>
               if permits E Owner (ident h p) m0
               then (Inr (), h\<lparr>fs := (fs h)(ident h p \<mapsto> File m mt c)\<rparr>)
               else (Inl PermissionError, h)))"

text \<open>A file operation as a step of the script: it is recorded with what it did.\<close>

definition file_op :: "event \<Rightarrow> file_step \<Rightarrow> unit prog" where
  "file_op e f h = (case f h of (r, h1) \<Rightarrow> (r, h1, [e]))"

section \<open>The script\<close>

subsection \<open>Constants\<close>

definition REQUIRED_GO_MAJOR :: int where
  "REQUIRED_GO_MAJOR = 1"

definition REQUIRED_GO_MINOR :: int where
  "REQUIRED_GO_MINOR = 24"

definition SRC_DIR :: "proc_env \<Rightarrow> path" where
  "SRC_DIR E = joinpath (joinpath (REPO_ROOT E) ''src'') ''markitdown''"

definition IS_WINDOWS :: "proc_env \<Rightarrow> bool" where
  "IS_WINDOWS E = (platform_system E = ''Windows'')"

definition BIN_NAME :: "proc_env \<Rightarrow> string" where
  "BIN_NAME E = (if IS_WINDOWS E then ''markitdown-mcp.exe'' else ''markitdown-mcp'')"

definition USE_COLOR :: "proc_env \<Rightarrow> bool" where
  "USE_COLOR E = stdout_isatty E"

text \<open>A path inside an f-string.\<close>

definition fmt_path :: "proc_env \<Rightarrow> path \<Rightarrow> string" where
  "fmt_path E p = str_path (IS_WINDOWS E) p"

subsection \<open>Colour helpers\<close>

definition ansi_c :: "proc_env \<Rightarrow> string \<Rightarrow> string \<Rightarrow> string" where
  "ansi_c E code text =
     (if USE_COLOR E then [CHR 0x1B] @ ''['' @ code @ ''m'' @ text @ [CHR 0x1B] @ ''[0m'' else text)"

definition info :: "proc_env \<Rightarrow> string \<Rightarrow> unit prog" where
  "info E msg = emit (Stdout (ansi_c E ''0;32'' ''==>'' @ '' '' @ msg))"

definition warn :: "proc_env \<Rightarrow> string \<Rightarrow> unit prog" where
  "warn E msg = emit (Stdout (ansi_c E ''1;33'' ''warn:'' @ '' '' @ msg))"

definition error :: "proc_env \<Rightarrow> string \<Rightarrow> unit prog" where
  "error E msg = emit (Stderr (ansi_c E ''0;31'' ''error:'' @ '' '' @ msg))"

definition die :: "proc_env \<Rightarrow> string \<Rightarrow> 'a prog" where
  "die E msg = and_then (error E msg) (\<lambda>_. raise (SystemExit 1))"

subsection \<open>Subprocess helpers\<close>

definition run :: "proc_env \<Rightarrow> string list \<Rightarrow> path option \<Rightarrow> bool \<Rightarrow> CompletedProcess prog" where
  "run E cmd cwd check = subprocess_run E (PyTuple cmd) cwd check"

definition which :: "string \<Rightarrow> bool prog" where
  "which name h = (Inr (on_path h name), h, [])"

subsection \<open>Go version check\<close>

text \<open>Lines 50 and 51 of \<^verbatim>\<open>check_go\<close>: the third field of the output, stripped of leading
  \<open>g\<close> and \<open>o\<close>, split at the dots; the first two items as integers, converted in that
  order.\<close>

definition parse_version :: "nat \<Rightarrow> string \<Rightarrow> py_exception + (string \<times> int \<times> int)" where
  "parse_version lim out =
     (case py_index (str_split out) 2 of
        Inl e \<Rightarrow> Inl e
      | Inr tok \<Rightarrow>
          (let version_str = str_lstrip ''go'' tok in
           case py_index (str_split_sep (CHR ''.'') version_str) 0 of
             Inl e \<Rightarrow> Inl e
           | Inr a \<Rightarrow>
               (case py_int lim a of
                  Inl e \<Rightarrow> Inl e
                | Inr major \<Rightarrow>
                    (case py_index (str_split_sep (CHR ''.'') version_str) 1 of
                       Inl e \<Rightarrow> Inl e
                     | Inr b \<Rightarrow>
                         (case py_int lim b of
                            Inl e \<Rightarrow> Inl e
                          | Inr minor \<Rightarrow> Inr (version_str, major, minor))))))"

text \<open>The condition of line 52.\<close>

definition too_old :: "int \<Rightarrow> int \<Rightarrow> bool" where
  "too_old major minor =
     (major < REQUIRED_GO_MAJOR \<or> (major = REQUIRED_GO_MAJOR \<and> minor < REQUIRED_GO_MINOR))"

definition check_go :: "proc_env \<Rightarrow> unit prog" where
  "check_go E =
     and_then (which ''go'') (\<lambda>found.
     and_then (if \<not> found
               then die E ''Go is not installed. Download it from https://go.dev/dl/ and re-run.''
               else return ()) (\<lambda>_.
     and_then (run E [''go'', ''version''] None True) (\<lambda>result.
     and_then (lift (parse_version (int_max_str_digits E) (stdout result))) (\<lambda>(version_str, major, minor).
     and_then (if too_old major minor
               then die E (''Go '' @ str_int REQUIRED_GO_MAJOR @ ''.'' @ str_int REQUIRED_GO_MINOR
                           @ ''+ required, found '' @ version_str)
               else return ()) (\<lambda>_.
     info E (''Go '' @ version_str @ '' found''))))))"

subsection \<open>Package manager detection\<close>

definition pkg_managers :: "string list" where
  "pkg_managers = [''brew'', ''apt-get'', ''dnf'', ''yum'', ''pacman'', ''zypper'', ''choco'']"

fun first_on_path :: "string list \<Rightarrow> string prog" where
  "first_on_path [] = return ''unknown''"
| "first_on_path (pm # pms) =
     and_then (which pm) (\<lambda>found. if found then return pm else first_on_path pms)"

definition detect_pkg_manager :: "string prog" where
  "detect_pkg_manager = first_on_path pkg_managers"

subsection \<open>Tesseract\<close>

text \<open>\<^verbatim>\<open>subprocess.run([...], check=True)\<close> of the provisioner: nothing captured.\<close>

definition install_cmd :: "proc_env \<Rightarrow> string list \<Rightarrow> unit prog" where
  "install_cmd E cmd = and_then (subprocess_run E (PyList cmd) None True) (\<lambda>_. return ())"

definition install_tesseract :: "proc_env \<Rightarrow> unit prog" where
  "install_tesseract E =
     and_then detect_pkg_manager (\<lambda>pm.
     and_then (info E (''Installing Tesseract using package manager: '' @ pm)) (\<lambda>_.
     try_except_CalledProcessError
       (if pm = ''brew'' then install_cmd E [''brew'', ''install'', ''tesseract'']
        else if pm = ''apt-get'' then
          and_then (install_cmd E [''sudo'', ''apt-get'', ''update'', ''-q'']) (\<lambda>_.
          install_cmd E [''sudo'', ''apt-get'', ''install'', ''-y'', ''tesseract-ocr''])
        else if pm = ''dnf'' then install_cmd E [''sudo'', ''dnf'', ''install'', ''-y'', ''tesseract'']
        else if pm = ''yum'' then install_cmd E [''sudo'', ''yum'', ''install'', ''-y'', ''tesseract'']
        else if pm = ''pacman'' then
          install_cmd E [''sudo'', ''pacman'', ''-Sy'', ''--noconfirm'', ''tesseract'', ''tesseract-data-eng'']
        else if pm = ''zypper'' then
          install_cmd E [''sudo'', ''zypper'', ''install'', ''-y'', ''tesseract-ocr'']
        else if pm = ''choco'' then install_cmd E [''choco'', ''install'', ''-y'', ''tesseract'']
        else
          and_then (warn E ''Could not detect a supported package manager.'') (\<lambda>_.
          warn E ''Install Tesseract manually: https://github.com/tesseract-ocr/tesseract#installing-tesseract''))
       (\<lambda>cmd rc. die E (''Failed to install Tesseract: '' @ str_CalledProcessError E cmd rc))))"

definition tesseract_version :: "proc_env \<Rightarrow> string prog" where
  "tesseract_version E =
     and_then (run E [''tesseract'', ''--version''] None False) (\<lambda>result.
     let output = (if stdout result \<noteq> [] then stdout result else stderr result) in
     if output \<noteq> [] then lift (py_index (str_splitlines output) 0) else return ''unknown'')"

definition check_tesseract :: "proc_env \<Rightarrow> bool \<Rightarrow> unit prog" where
  "check_tesseract E with_ocr =
     (if with_ocr then
        and_then (which ''tesseract'') (\<lambda>found.
        if found then
          and_then (tesseract_version E) (\<lambda>v. info E (''Tesseract already installed: '' @ v))
        else
          and_then (install_tesseract E) (\<lambda>_.
          and_then (tesseract_version E) (\<lambda>v. info E (''Tesseract installed: '' @ v))))
      else
        and_then (which ''tesseract'') (\<lambda>found.
        if found then
          and_then (tesseract_version E) (\<lambda>v.
          info E (''Tesseract found: '' @ v @ '' '' @ [CHR 0xE2, CHR 0x80, CHR 0x94] @ '' OCR enabled''))
        else
          and_then (warn E ''Tesseract not found. Image OCR will be unavailable.'') (\<lambda>_.
          warn E ''Re-run with --with-ocr to install, or install manually and restart the server.'')))"

subsection \<open>Build\<close>

definition build :: "proc_env \<Rightarrow> path prog" where
  "build E =
     and_then (info E (''Building '' @ BIN_NAME E @ ''...'')) (\<lambda>_.
     and_then (try_except_CalledProcessError
                 (and_then (run E [''go'', ''mod'', ''tidy'', ''-e''] (Some (SRC_DIR E)) True) (\<lambda>_.
                  and_then (run E [''go'', ''build'', ''-ldflags=-s -w'', ''-o='' @ BIN_NAME E, ''.'']
                                (Some (SRC_DIR E)) True) (\<lambda>_. return ())))
                 (\<lambda>cmd rc. die E (''Build failed: '' @ str_CalledProcessError E cmd rc))) (\<lambda>_.
     let bin_path = joinpath (SRC_DIR E) (BIN_NAME E) in
     and_then (info E (''Built: '' @ fmt_path E bin_path)) (\<lambda>_.
     return bin_path)))"

subsection \<open>Install\<close>

definition rwxr_xr_x :: nat where
  "rwxr_xr_x = 7 * 64 + 5 * 8 + 5"

definition install_binary :: "proc_env \<Rightarrow> path \<Rightarrow> path \<Rightarrow> path prog" where
  "install_binary E bin_path install_dir =
     and_then (file_op (Mkdir install_dir) (Path_mkdir E True True install_dir)) (\<lambda>_.
     let dest = joinpath install_dir (BIN_NAME E) in
     and_then (file_op (Copy2 bin_path dest) (copy2 E bin_path dest)) (\<lambda>_.
     and_then (if \<not> IS_WINDOWS E then file_op (Chmod dest rwxr_xr_x) (chmod E dest rwxr_xr_x)
               else return ()) (\<lambda>_.
     and_then (info E (''Installed to: '' @ fmt_path E dest)) (\<lambda>_.
     return dest))))"

definition pathsep :: "proc_env \<Rightarrow> char" where
  "pathsep E = (if IS_WINDOWS E then CHR '';'' else CHR '':'')"

definition check_path :: "proc_env \<Rightarrow> path \<Rightarrow> unit prog" where
  "check_path E install_dir =
     (let path_dirs = str_split_sep (pathsep E) (case environ E ''PATH'' of None \<Rightarrow> [] | Some v \<Rightarrow> v) in
      if fmt_path E install_dir \<notin> set path_dirs then
        and_then (warn E (fmt_path E install_dir @ '' is not on your PATH.'')) (\<lambda>_.
        if IS_WINDOWS E then
          warn E (''Add it via: setx PATH '' @ [CHR 0x22] @ ''%PATH%;'' @ fmt_path E install_dir @ [CHR 0x22])
        else
          warn E (''Add this to your shell profile: export PATH='' @ [CHR 0x22] @ fmt_path E install_dir
                  @ '':$PATH'' @ [CHR 0x22]))
      else return ())"

subsection \<open>MCP config snippet\<close>

definition rule_line :: string where
  "rule_line = concat (replicate 52 [CHR 0xE2, CHR 0x94, CHR 0x80])"

definition snippet :: "string \<Rightarrow> string" where
  \<open>snippet full_path =
     ''\<newline>{\<newline>  "mcpServers": {\<newline>    "markitdown": {\<newline>      "command": "'' @ full_path
     @ ''"\<newline>    }\<newline>  }\<newline>}\<newline>''\<close>

definition desktop_config :: "proc_env \<Rightarrow> path" where
  "desktop_config E =
     (let system = platform_system E in
      if system = ''Darwin'' then
        joinpath (joinpath (joinpath (joinpath (home E) ''Library'') ''Application Support'') ''Claude'')
          ''claude_desktop_config.json''
      else if system = ''Linux'' then
        joinpath (joinpath (joinpath (home E) ''.config'') ''Claude'') ''claude_desktop_config.json''
      else if system = ''Windows'' then
        (let appdata = (case environ E ''APPDATA'' of
                          None \<Rightarrow> fmt_path E (joinpath (joinpath (home E) ''AppData'') ''Roaming'')
                        | Some v \<Rightarrow> v)
         in joinpath (joinpath (path_of_text E appdata) ''Claude'') ''claude_desktop_config.json'')
      else Path [] [] [''your MCP client config file''])"

definition print_config :: "proc_env \<Rightarrow> path \<Rightarrow> unit prog" where
  "print_config E full_path =
     and_then (emit (Stdout [])) (\<lambda>_.
     and_then (emit (Stdout rule_line)) (\<lambda>_.
     and_then (emit (Stdout ''  Add to your MCP client configuration:'')) (\<lambda>_.
     and_then (emit (Stdout rule_line)) (\<lambda>_.
     and_then (emit (Stdout (snippet (fmt_path E full_path)))) (\<lambda>_.
     and_then (emit (Stdout (''Claude Desktop config: '' @ fmt_path E (desktop_config E)))) (\<lambda>_.
     and_then (emit (Stdout ''Claude Code config:    .mcp.json in your project root'')) (\<lambda>_.
     emit (Stdout []))))))))"

subsection \<open>Main\<close>

text \<open>The parsed command line: \<^verbatim>\<open>args.with_ocr\<close> and \<^verbatim>\<open>args.prefix\<close>. \<open>main\<close> below is the script
  from line 195 on, after \<^verbatim>\<open>parse_args\<close> has returned.\<close>

record args =
  with_ocr :: bool
  prefix :: path

definition main :: "proc_env \<Rightarrow> args \<Rightarrow> unit prog" where
  "main E a =
     and_then (check_go E) (\<lambda>_.
     and_then (check_tesseract E (with_ocr a)) (\<lambda>_.
     and_then (build E) (\<lambda>bin_path.
     and_then (install_binary E bin_path (prefix a)) (\<lambda>full_path.
     and_then (check_path E (prefix a)) (\<lambda>_.
     and_then (print_config E full_path) (\<lambda>_.
     info E ''Done. Restart your MCP client to pick up the new server.''))))))"

text \<open>The process as the operating system sees it: exit status 0 when \<open>main\<close> returns, the
  status of \<^verbatim>\<open>sys.exit\<close> when that ends it, and for any other exception the interpreter's
  traceback on the error stream and status 1.\<close>

definition script :: "proc_env \<Rightarrow> args \<Rightarrow> host \<Rightarrow> int \<times> host \<times> event list" where
  "script E a h =
     (case main E a h of
        (Inr u, h1, ev) \<Rightarrow> (0, h1, ev)
      | (Inl (SystemExit n), h1, ev) \<Rightarrow> (n, h1, ev)
      | (Inl e, h1, ev) \<Rightarrow> (1, h1, ev @ [Traceback e]))"

text \<open>What the script itself printed on the error stream, one item for each \<^verbatim>\<open>print\<close> call.\<close>

fun stderr_of :: "event list \<Rightarrow> string list" where
  "stderr_of [] = []"
| "stderr_of (Stderr s # ev) = s # stderr_of ev"
| "stderr_of (e # ev) = stderr_of ev"

text \<open>The external commands started and the file operations asked for.\<close>

fun is_action :: "event \<Rightarrow> bool" where
  "is_action (Stdout s) = False"
| "is_action (Stderr s) = False"
| "is_action (Traceback e) = False"
| "is_action e = True"

section \<open>A sample machine\<close>


definition linux_programs :: "string \<Rightarrow> string list \<Rightarrow> path option \<Rightarrow> host \<Rightarrow> CompletedProcess \<times> host" where
  "linux_programs go_version_output cmd cwd h =
     (if cmd = [''go'', ''version''] then (CompletedProcess 0 go_version_output [], h)
      else if cmd = [''go'', ''build'', ''-ldflags=-s -w'', ''-o=markitdown-mcp'', ''.''] then
        (CompletedProcess 0 [] [],
         h\<lparr>fs := (fs h)
            (ident h (joinpath (case cwd of Some d \<Rightarrow> d | None \<Rightarrow> Path [] [] []) ''markitdown-mcp'')
               \<mapsto> File 493 7 ''ELF'')\<rparr>)
      else if cmd = [''tesseract'', ''--version''] then
        (CompletedProcess 0 [] ''tesseract 5.3.0\<newline> leptonica-1.82.0\<newline>'', h)
      else (CompletedProcess 0 [] [], h))"

definition linux_env :: "string \<Rightarrow> proc_env" where
  "linux_env go_version_output =
     \<lparr>platform_system = ''Linux'', stdout_isatty = False,
      environ = [''PATH'' \<mapsto> ''/usr/bin:/bin''],
      home = Path [] ''/'' [''home'', ''u''], REPO_ROOT = Path [] ''/'' [''repo''],
      int_max_str_digits = 4300, new_dir_perm = 493, new_file_perm = 420, clock = 9,
      permits = (\<lambda>acc q b. True),
      died_with = (\<lambda>n. ''unknown signal '' @ str_int n),
      path_of_text = (\<lambda>s. Path [] [] [s]),
      programs = linux_programs go_version_output\<rparr>"

text \<open>A machine with the given names on the search path and no files at all.\<close>

definition host_with :: "string list \<Rightarrow> host" where
  "host_with names = \<lparr>on_path = (\<lambda>n. n \<in> set names), ident = (\<lambda>p. p), fs = Map.empty\<rparr>"

text \<open>A machine with the toolchain on the search path, the repository checked out under
  \<open>/repo\<close>, a home directory and a current directory; then the same once the binary is
  built.\<close>

definition repo_dirs :: "path list" where
  "repo_dirs =
     [Path [] ''/'' [], Path [] ''/'' [''repo''], Path [] ''/'' [''repo'', ''src''],
      Path [] ''/'' [''repo'', ''src'', ''markitdown''], Path [] ''/'' [''home''],
      Path [] ''/'' [''home'', ''u''], Path [] [] []]"

definition repo_host :: host where
  "repo_host = (host_with [''go''])\<lparr>fs := (\<lambda>q. if q \<in> set repo_dirs then Some (Dir 493) else None)\<rparr>"



section \<open>Conditions used in the statements\<close>




text \<open>A command can be started: its working directory can be entered and its executable
  resolves on the search path.\<close>

definition starts :: "proc_env \<Rightarrow> string list \<Rightarrow> path option \<Rightarrow> host \<Rightarrow> bool" where
  "starts E cmd cwd h = (case cmd of [] \<Rightarrow> False | exe # _ \<Rightarrow> spawn_error E exe cwd h = None)"

text \<open>
  How a step may end as far as the error stream goes: either it left through \<^verbatim>\<open>sys.exit\<close> with
  status 1 having printed one error line and nothing else there, or it printed nothing
  there at all.
\<close>

definition outcome_ok :: "proc_env \<Rightarrow> (py_exception + 'a) \<times> host \<times> event list \<Rightarrow> bool" where
  "outcome_ok E res =
     (case res of
        (Inl (SystemExit n), h1, ev) \<Rightarrow>
          n = 1 \<and> (\<exists>msg. stderr_of ev = [ansi_c E ''0;31'' ''error:'' @ '' '' @ msg])
      | (r, h1, ev) \<Rightarrow> stderr_of ev = [])"

definition tidy :: "proc_env \<Rightarrow> 'a prog \<Rightarrow> bool" where
  "tidy E m = (\<forall>h. outcome_ok E (m h))"

text \<open>A step from which no \<^verbatim>\<open>CalledProcessError\<close> escapes.\<close>

definition contained :: "'a prog \<Rightarrow> bool" where
  "contained m = (\<forall>h cmd rc. fst (m h) \<noteq> Inl (CalledProcessError cmd rc))"

section \<open>Properties\<close>

subsection \<open>Helper facts\<close>

lemmas prog_defs = return_def raise_def lift_def emit_def and_then_def which_def

lemma first_on_path_filter:
  "first_on_path pms h =
     (Inr (case filter (on_path h) pms of [] \<Rightarrow> ''unknown'' | pm # _ \<Rightarrow> pm), h, [])"
  by (induction pms) (simp_all add: prog_defs)

lemma filter_first_index:
  "i < length xs \<Longrightarrow> P (xs ! i) \<Longrightarrow> (\<forall>j<i. \<not> P (xs ! j)) \<Longrightarrow> \<exists>ys. filter P xs = xs ! i # ys"
proof (induction xs arbitrary: i)
  case Nil
  then show ?case by simp
next
  case (Cons x xs)
  show ?case
  proof (cases i)
    case 0
    with Cons.prems show ?thesis by simp
  next
    case (Suc k)
    with Cons.prems have "\<not> P x" by auto
    moreover have "\<exists>ys. filter P xs = xs ! k # ys"
      using Cons.prems Suc by (intro Cons.IH) auto
    ultimately show ?thesis using Suc by simp
  qed
qed

subsection \<open>Package manager selection\<close>

text \<open>
  C5. The selector probes \<open>brew\<close>, \<open>apt-get\<close>, \<open>dnf\<close>, \<open>yum\<close>, \<open>pacman\<close>, \<open>zypper\<close>, \<open>choco\<close> in
  that order. It always returns, changes nothing and prints nothing; it returns
  \<open>unknown\<close> when none of them resolves, and otherwise the one at the least position that
  resolves; the result depends on nothing but which of the seven names resolve.
\<close>

theorem detect_pkg_manager_first_available:
  "pkg_managers = [''brew'', ''apt-get'', ''dnf'', ''yum'', ''pacman'', ''zypper'', ''choco'']
   \<and> (\<exists>pm. detect_pkg_manager h = (Inr pm, h, []))
   \<and> ((\<forall>pm \<in> set pkg_managers. \<not> on_path h pm) \<longrightarrow> detect_pkg_manager h = (Inr ''unknown'', h, []))
   \<and> (\<forall>i < length pkg_managers.
         on_path h (pkg_managers ! i) \<and> (\<forall>j < i. \<not> on_path h (pkg_managers ! j))
         \<longrightarrow> detect_pkg_manager h = (Inr (pkg_managers ! i), h, []))
   \<and> ((\<forall>pm \<in> set pkg_managers. on_path h pm = on_path h' pm)
         \<longrightarrow> fst (detect_pkg_manager h) = fst (detect_pkg_manager h'))"
proof (intro conjI allI impI)
  show "pkg_managers = [''brew'', ''apt-get'', ''dnf'', ''yum'', ''pacman'', ''zypper'', ''choco'']"
    by (simp add: pkg_managers_def)
  show "\<exists>pm. detect_pkg_manager h = (Inr pm, h, [])"
    by (simp add: detect_pkg_manager_def first_on_path_filter)
next
  assume "\<forall>pm \<in> set pkg_managers. \<not> on_path h pm"
  then have "filter (on_path h) pkg_managers = []" by (simp add: filter_empty_conv)
  then show "detect_pkg_manager h = (Inr ''unknown'', h, [])"
    by (simp add: detect_pkg_manager_def first_on_path_filter)
next
  fix i
  assume "i < length pkg_managers"
    and "on_path h (pkg_managers ! i) \<and> (\<forall>j < i. \<not> on_path h (pkg_managers ! j))"
  then obtain ys where "filter (on_path h) pkg_managers = pkg_managers ! i # ys"
    using filter_first_index [of i pkg_managers "on_path h"] by blast
  then show "detect_pkg_manager h = (Inr (pkg_managers ! i), h, [])"
    by (simp add: detect_pkg_manager_def first_on_path_filter)
next
  assume "\<forall>pm \<in> set pkg_managers. on_path h pm = on_path h' pm"
  then have "filter (on_path h) pkg_managers = filter (on_path h') pkg_managers"
    by (intro filter_cong) auto
  then show "fst (detect_pkg_manager h) = fst (detect_pkg_manager h')"
    by (simp add: detect_pkg_manager_def first_on_path_filter)
qed

theorem detect_pkg_manager_first_available_witness:
  "detect_pkg_manager (host_with [''yum'', ''apt-get''])
     = (Inr ''apt-get'', host_with [''yum'', ''apt-get''], [])"
proof -
  let ?h = "host_with [''yum'', ''apt-get'']"
  have "(1::nat) < length pkg_managers" by (simp add: pkg_managers_def)
  moreover have "on_path ?h (pkg_managers ! 1) \<and> (\<forall>j < 1. \<not> on_path ?h (pkg_managers ! j))"
    by (simp add: pkg_managers_def host_with_def)
  ultimately have "detect_pkg_manager ?h = (Inr (pkg_managers ! 1), ?h, [])"
    using detect_pkg_manager_first_available [of ?h ?h] by blast
  then show ?thesis by (simp add: pkg_managers_def)
qed

lemmas text_defs = str_split_def str_isspace_def str_lstrip_def str_split_sep_def py_index_def
  py_int_def c_strip_def c_isspace_def is_digit_def digit_val_def

lemma check_go_missing:
  "\<not> on_path h ''go'' \<Longrightarrow>
   check_go E h = (Inl (SystemExit 1), h,
     [Stderr (ansi_c E ''0;31'' ''error:'' @ '' ''
        @ ''Go is not installed. Download it from https://go.dev/dl/ and re-run.'')])"
  by (simp add: check_go_def die_def error_def prog_defs)

lemma check_go_parsed:
  assumes "on_path h ''go''"
    and "programs E [''go'', ''version''] None h = (r, h1)"
    and "returncode r = 0"
    and "parse_version (int_max_str_digits E) (stdout r) = Inr (v, major, minor)"
  shows "check_go E h =
     (if too_old major minor
      then (Inl (SystemExit 1), h1,
            [Spawn (PyTuple [''go'', ''version'']) None,
             Stderr (ansi_c E ''0;31'' ''error:'' @ '' '' @ ''Go '' @ str_int REQUIRED_GO_MAJOR @ ''.''
                     @ str_int REQUIRED_GO_MINOR @ ''+ required, found '' @ v)])
      else (Inr (), h1,
            [Spawn (PyTuple [''go'', ''version'']) None,
             Stdout (ansi_c E ''0;32'' ''==>'' @ '' '' @ ''Go '' @ v @ '' found'')]))"
  using assms
  by (simp add: check_go_def die_def error_def info_def run_def subprocess_run_def spawn_error_def prog_defs)

subsection \<open>Toolchain gate\<close>

text \<open>
  C1. When the toolchain resolves, its version command succeeds and its output parses to
  \<open>(major, minor)\<close>, the gate passes exactly when \<open>(major, minor)\<close> is at least \<open>(1, 24)\<close>,
  comparing the major numbers first and then the minor numbers, as integers; otherwise it
  ends the run with exit status 1. So \<open>(1, 9)\<close> fails, \<open>(2, 0)\<close> passes and \<open>(1, 24)\<close> passes.
\<close>

theorem toolchain_gate_iff:
  assumes "on_path h ''go''"
    and "programs E [''go'', ''version''] None h = (r, h1)"
    and "returncode r = 0"
    and "parse_version (int_max_str_digits E) (stdout r) = Inr (v, major, minor)"
  shows "(fst (check_go E h) = Inr ()) = (1 < major \<or> (major = 1 \<and> 24 \<le> minor))
     \<and> (fst (check_go E h) = Inl (SystemExit 1)) = (\<not> (1 < major \<or> (major = 1 \<and> 24 \<le> minor)))
     \<and> too_old 1 9 \<and> \<not> too_old 2 0 \<and> \<not> too_old 1 24"
proof -
  have "too_old major minor = (\<not> (1 < major \<or> (major = 1 \<and> 24 \<le> minor)))"
    by (auto simp: too_old_def REQUIRED_GO_MAJOR_def REQUIRED_GO_MINOR_def)
  moreover have "too_old 1 9 \<and> \<not> too_old 2 0 \<and> \<not> too_old 1 24"
    by (simp add: too_old_def REQUIRED_GO_MAJOR_def REQUIRED_GO_MINOR_def)
  ultimately show ?thesis
    using check_go_parsed [OF assms] by simp
qed

lemma parse_sample:
  "parse_version 4300 ''go version go1.24.0 linux/amd64\<newline>'' = Inr (''1.24.0'', 1, 24)"
  by (simp add: parse_version_def text_defs)

theorem toolchain_gate_iff_witness:
  "fst (check_go (linux_env ''go version go1.24.0 linux/amd64\<newline>'') (host_with [''go''])) = Inr ()"
proof -
  let ?E = "linux_env ''go version go1.24.0 linux/amd64\<newline>''"
  let ?h = "host_with [''go'']"
  have 1: "on_path ?h ''go''" by (simp add: host_with_def)
  have 2: "programs ?E [''go'', ''version''] None ?h
             = (CompletedProcess 0 ''go version go1.24.0 linux/amd64\<newline>'' [], ?h)"
    by (simp add: linux_env_def linux_programs_def)
  have 3: "returncode (CompletedProcess 0 ''go version go1.24.0 linux/amd64\<newline>'' []) = 0" by simp
  have 4: "parse_version (int_max_str_digits ?E)
             (stdout (CompletedProcess 0 ''go version go1.24.0 linux/amd64\<newline>'' []))
           = Inr (''1.24.0'', 1, 24)"
    by (simp add: linux_env_def parse_sample)
  show ?thesis
    using toolchain_gate_iff [OF 1 2 3 4] by simp
qed

text \<open>
  C3. When the toolchain does not resolve on the search path, the run ends with exit
  status 1, having printed one line on the error stream; no command was started, no file
  operation was asked for, and the machine is as it was.
\<close>

theorem missing_toolchain_stops:
  assumes "\<not> on_path h ''go''"
  shows "script E a h = (1, h,
       [Stderr (ansi_c E ''0;31'' ''error:'' @ '' ''
          @ ''Go is not installed. Download it from https://go.dev/dl/ and re-run.'')])
     \<and> filter is_action (snd (snd (script E a h))) = []"
  using check_go_missing [OF assms, of E]
  by (simp add: script_def main_def and_then_def)

theorem missing_toolchain_stops_witness:
  "script (linux_env ''go version go1.24.0 linux/amd64\<newline>'')
      \<lparr>with_ocr = True, prefix = Path [] ''/'' [''opt'', ''bin'']\<rparr> (host_with [''brew''])
   = (1, host_with [''brew''],
      [Stderr ''error: Go is not installed. Download it from https://go.dev/dl/ and re-run.''])"
proof -
  have "\<not> on_path (host_with [''brew'']) ''go''" by (simp add: host_with_def)
  from missing_toolchain_stops [OF this] show ?thesis
    by (simp add: ansi_c_def USE_COLOR_def linux_env_def)
qed











lemma split_at_nonempty: "split_at sep cur s \<noteq> []"
  by (induction s arbitrary: cur) simp_all



subsection \<open>Version parser\<close>





subsection \<open>OCR provisioner\<close>

lemma lines_from_first:
  "s \<noteq> [] \<Longrightarrow> \<exists>rest. lines_from cur s = (cur @ takeWhile (\<lambda>c. \<not> is_linebreak c) s) # rest"
proof (induction cur s rule: lines_from.induct)
  case (1 cur)
  then show ?case by simp
next
  case (2 cur c)
  then show ?case by simp
next
  case (3 cur c d cs)
  have cr: "is_linebreak (CHR 0x0D)" by (simp add: is_linebreak_def)
  show ?case
  proof (cases "c = CHR 0x0D \<and> d = CHR 0x0A")
    case True
    then show ?thesis using cr by simp
  next
    case False
    show ?thesis
    proof (cases "is_linebreak c")
      case True
      with False show ?thesis by auto
    next
      case lb: False
      have "\<exists>rest. lines_from (cur @ [c]) (d # cs)
              = ((cur @ [c]) @ takeWhile (\<lambda>c. \<not> is_linebreak c) (d # cs)) # rest"
        by (rule "3.IH"(3)) (use False lb in simp_all)
      with False lb show ?thesis by auto
    qed
  qed
qed

lemma first_line:
  "s \<noteq> [] \<Longrightarrow> py_index (str_splitlines s) 0 = Inr (takeWhile (\<lambda>c. \<not> is_linebreak c) s)"
  using lines_from_first [of s "[]"] by (auto simp: str_splitlines_def py_index_def)

lemma tesseract_version_found:
  assumes "on_path h ''tesseract''"
    and "programs E [''tesseract'', ''--version''] None h = (r, h1)"
  shows "tesseract_version E h =
     (Inr (let output = (if stdout r \<noteq> [] then stdout r else stderr r)
           in if output = [] then ''unknown'' else takeWhile (\<lambda>c. \<not> is_linebreak c) output),
      h1, [Spawn (PyTuple [''tesseract'', ''--version'']) None])"
  using assms
  by (simp add: tesseract_version_def run_def subprocess_run_def spawn_error_def prog_defs first_line Let_def)

lemma tesseract_version_missing:
  "\<not> on_path h ''tesseract'' \<Longrightarrow>
   tesseract_version E h = (Inl FileNotFoundError, h, [Spawn (PyTuple [''tesseract'', ''--version'']) None])"
  by (simp add: tesseract_version_def run_def subprocess_run_def spawn_error_def prog_defs)

text \<open>
  C7. In provisioning mode, when the OCR tool resolves on the search path, the provisioner
  starts one command only, the tool's own version command, and no package manager; it
  prints one line reporting the version (the first line of the tool's output, standard
  output before standard error, or \<open>unknown\<close> when there is none) and returns normally.
  Run again on the machine it leaves, with the tool still resolving, it returns normally
  again.
\<close>

theorem provision_when_present:
  assumes "on_path h ''tesseract''"
    and "programs E [''tesseract'', ''--version''] None h = (r, h1)"
  shows "check_tesseract E True h =
     (Inr (), h1,
      [Spawn (PyTuple [''tesseract'', ''--version'']) None,
       Stdout (ansi_c E ''0;32'' ''==>'' @ '' '' @ ''Tesseract already installed: ''
               @ (let output = (if stdout r \<noteq> [] then stdout r else stderr r)
                  in if output = [] then ''unknown''
                     else takeWhile (\<lambda>c. \<not> is_linebreak c) output))])
     \<and> (on_path h1 ''tesseract'' \<longrightarrow> fst (check_tesseract E True h1) = Inr ())"
proof -
  have again: "fst (check_tesseract E True h1) = Inr ()" if "on_path h1 ''tesseract''"
  proof -
    obtain r2 h2 where "programs E [''tesseract'', ''--version''] None h1 = (r2, h2)"
      by (cases "programs E [''tesseract'', ''--version''] None h1")
    from tesseract_version_found [OF that this] that show ?thesis
      by (simp add: check_tesseract_def info_def prog_defs)
  qed
  from tesseract_version_found [OF assms] assms(1) again show ?thesis
    by (simp add: check_tesseract_def info_def prog_defs)
qed

theorem provision_when_present_witness:
  "check_tesseract (linux_env []) True (host_with [''tesseract'', ''brew'']) =
     (Inr (), host_with [''tesseract'', ''brew''],
      [Spawn (PyTuple [''tesseract'', ''--version'']) None,
       Stdout ''==> Tesseract already installed: tesseract 5.3.0''])"
proof -
  let ?h = "host_with [''tesseract'', ''brew'']"
  have 1: "on_path ?h ''tesseract''" by (simp add: host_with_def)
  have 2: "programs (linux_env []) [''tesseract'', ''--version''] None ?h
     = (CompletedProcess 0 [] ''tesseract 5.3.0\<newline> leptonica-1.82.0\<newline>'', ?h)"
    by (simp add: linux_env_def linux_programs_def)
  from provision_when_present [OF 1 2] show ?thesis
    by (simp add: ansi_c_def USE_COLOR_def linux_env_def is_linebreak_def)
qed

lemma install_tesseract_unknown:
  assumes "\<forall>pm \<in> set pkg_managers. \<not> on_path h pm"
  shows "install_tesseract E h =
     (Inr (), h,
      [Stdout (ansi_c E ''0;32'' ''==>'' @ '' '' @ ''Installing Tesseract using package manager: unknown''),
       Stdout (ansi_c E ''1;33'' ''warn:'' @ '' '' @ ''Could not detect a supported package manager.''),
       Stdout (ansi_c E ''1;33'' ''warn:'' @ '' ''
         @ ''Install Tesseract manually: https://github.com/tesseract-ocr/tesseract#installing-tesseract'')])"
proof -
  from assms have "filter (on_path h) pkg_managers = []" by (simp add: filter_empty_conv)
  then have "detect_pkg_manager h = (Inr ''unknown'', h, [])"
    by (simp add: detect_pkg_manager_def first_on_path_filter)
  then show ?thesis
    by (simp add: install_tesseract_def try_except_CalledProcessError_def info_def warn_def prog_defs)
qed

lemma check_tesseract_unknown:
  assumes "\<not> on_path h ''tesseract''" and "\<forall>pm \<in> set pkg_managers. \<not> on_path h pm"
  shows "check_tesseract E True h =
     (Inl FileNotFoundError, h,
      [Stdout (ansi_c E ''0;32'' ''==>'' @ '' '' @ ''Installing Tesseract using package manager: unknown''),
       Stdout (ansi_c E ''1;33'' ''warn:'' @ '' '' @ ''Could not detect a supported package manager.''),
       Stdout (ansi_c E ''1;33'' ''warn:'' @ '' ''
         @ ''Install Tesseract manually: https://github.com/tesseract-ocr/tesseract#installing-tesseract''),
       Spawn (PyTuple [''tesseract'', ''--version'']) None])"
  using install_tesseract_unknown [OF assms(2), of E] tesseract_version_missing [OF assms(1), of E] assms(1)
  by (simp add: check_tesseract_def and_then_def which_def)

text \<open>
  C6. Provisioning is requested, the OCR tool does not resolve and no package manager
  resolves. The provisioner prints its two warnings and returns; \<open>check_tesseract\<close> then
  asks the absent tool for its version, \<^verbatim>\<open>subprocess.run\<close> raises \<open>FileNotFoundError\<close>, and the
  run ends with a traceback and exit status 1 before the build.
\<close>

theorem advisory_provisioning_stops_run:
  "script (linux_env ''go version go1.24.0 linux/amd64\<newline>'')
      \<lparr>with_ocr = True, prefix = Path [] ''/'' [''home'', ''u'', ''.local'', ''bin'']\<rparr>
      (host_with [''go''])
   = (1, host_with [''go''],
      [Spawn (PyTuple [''go'', ''version'']) None,
       Stdout ''==> Go 1.24.0 found'',
       Stdout ''==> Installing Tesseract using package manager: unknown'',
       Stdout ''warn: Could not detect a supported package manager.'',
       Stdout ''warn: Install Tesseract manually: https://github.com/tesseract-ocr/tesseract#installing-tesseract'',
       Spawn (PyTuple [''tesseract'', ''--version'']) None,
       Traceback FileNotFoundError])"
proof -
  let ?E = "linux_env ''go version go1.24.0 linux/amd64\<newline>''"
  let ?h = "host_with [''go'']"
  have go: "check_go ?E ?h = (Inr (), ?h,
      [Spawn (PyTuple [''go'', ''version'']) None, Stdout ''==> Go 1.24.0 found''])"
    using check_go_parsed [of ?h ?E "CompletedProcess 0 ''go version go1.24.0 linux/amd64\<newline>'' []"
        ?h "''1.24.0''" 1 24]
    by (simp add: host_with_def linux_env_def linux_programs_def parse_sample too_old_def
        REQUIRED_GO_MAJOR_def REQUIRED_GO_MINOR_def ansi_c_def USE_COLOR_def)
  have "\<not> on_path ?h ''tesseract''" and "\<forall>pm \<in> set pkg_managers. \<not> on_path ?h pm"
    by (simp_all add: host_with_def pkg_managers_def)
  from check_tesseract_unknown [OF this, of ?E] go show ?thesis
    by (simp add: script_def main_def and_then_def ansi_c_def USE_COLOR_def linux_env_def)
qed

subsection \<open>Environment diagnostics\<close>

lemma str_join_Cons:
  "str_join sep (x # xs) = (if xs = [] then x else x @ sep @ str_join sep xs)"
  by (cases xs) simp_all

lemma split_at_join: "str_join [sep] (split_at sep cur s) = cur @ s"
  by (induction s arbitrary: cur) (simp_all add: str_join_Cons split_at_nonempty)

lemma split_at_no_sep:
  "sep \<notin> set cur \<Longrightarrow> seg \<in> set (split_at sep cur s) \<Longrightarrow> sep \<notin> set seg"
proof (induction s arbitrary: cur)
  case Nil
  then show ?case by simp
next
  case (Cons c s)
  show ?case
  proof (cases "c = sep")
    case True
    with Cons.prems have "seg = cur \<or> seg \<in> set (split_at sep [] s)" by simp
    then show ?thesis using Cons.prems(1) Cons.IH [of "[]"] by auto
  next
    case False
    with Cons.prems have "seg \<in> set (split_at sep (cur @ [c]) s)" by simp
    moreover from False Cons.prems(1) have "sep \<notin> set (cur @ [c])" by auto
    ultimately show ?thesis by (rule Cons.IH [rotated])
  qed
qed

lemma str_path_nonempty:
  assumes "[] \<notin> set (parts d)"
  shows "str_path w d \<noteq> []"
proof (cases "parts d")
  case Nil
  then show ?thesis by (simp add: str_path_def)
next
  case (Cons x xs)
  with assms have "x \<noteq> []" by auto
  with Cons show ?thesis by (simp add: str_path_def str_join_Cons)
qed

text \<open>
  C10. \<open>check_path\<close> never raises and changes nothing. It warns exactly when the text of the
  install directory equals none of the segments of \<open>PATH\<close>; the segments are the pieces
  between the platform's separators, taken as they are (joined by the separator they give
  \<open>PATH\<close> back, and none contains it). An unset \<open>PATH\<close> is the one empty segment, so the
  warning is then always given. A directory that is on \<open>PATH\<close> with a trailing separator is
  reported as absent (second theorem).
\<close>

theorem check_path_exact_segments:
  "check_path E d h =
     (Inr (), h,
      if fmt_path E d \<in> set (str_split_sep (pathsep E) (case environ E ''PATH'' of None \<Rightarrow> [] | Some v \<Rightarrow> v))
      then []
      else [Stdout (ansi_c E ''1;33'' ''warn:'' @ '' '' @ fmt_path E d @ '' is not on your PATH.''),
            Stdout (ansi_c E ''1;33'' ''warn:'' @ '' '' @
              (if IS_WINDOWS E
               then ''Add it via: setx PATH '' @ [CHR 0x22] @ ''%PATH%;'' @ fmt_path E d @ [CHR 0x22]
               else ''Add this to your shell profile: export PATH='' @ [CHR 0x22] @ fmt_path E d
                    @ '':$PATH'' @ [CHR 0x22]))])
   \<and> str_split_sep (pathsep E) [] = [[]]
   \<and> (environ E ''PATH'' = None \<and> [] \<notin> set (parts d) \<longrightarrow> snd (snd (check_path E d h)) \<noteq> [])
   \<and> str_join [pathsep E] (str_split_sep (pathsep E) v) = v
   \<and> (\<forall>seg \<in> set (str_split_sep (pathsep E) v). pathsep E \<notin> set seg)"
proof (intro conjI)
  show run: "check_path E d h =
     (Inr (), h,
      if fmt_path E d \<in> set (str_split_sep (pathsep E) (case environ E ''PATH'' of None \<Rightarrow> [] | Some v \<Rightarrow> v))
      then []
      else [Stdout (ansi_c E ''1;33'' ''warn:'' @ '' '' @ fmt_path E d @ '' is not on your PATH.''),
            Stdout (ansi_c E ''1;33'' ''warn:'' @ '' '' @
              (if IS_WINDOWS E
               then ''Add it via: setx PATH '' @ [CHR 0x22] @ ''%PATH%;'' @ fmt_path E d @ [CHR 0x22]
               else ''Add this to your shell profile: export PATH='' @ [CHR 0x22] @ fmt_path E d
                    @ '':$PATH'' @ [CHR 0x22]))])"
    by (simp add: check_path_def warn_def prog_defs Let_def)
  show "str_split_sep (pathsep E) [] = [[]]"
    by (simp add: str_split_sep_def)
  show "environ E ''PATH'' = None \<and> [] \<notin> set (parts d) \<longrightarrow> snd (snd (check_path E d h)) \<noteq> []"
  proof
    assume a: "environ E ''PATH'' = None \<and> [] \<notin> set (parts d)"
    then have "fmt_path E d \<noteq> []" by (simp add: fmt_path_def str_path_nonempty)
    with a show "snd (snd (check_path E d h)) \<noteq> []"
      by (simp add: run str_split_sep_def)
  qed
  show "str_join [pathsep E] (str_split_sep (pathsep E) v) = v"
    by (simp add: str_split_sep_def split_at_join)
  show "\<forall>seg \<in> set (str_split_sep (pathsep E) v). pathsep E \<notin> set seg"
    using split_at_no_sep [of "pathsep E" "[]" _ v] by (auto simp: str_split_sep_def)
qed

theorem check_path_exact_segments_witness:
  "check_path ((linux_env [])\<lparr>environ := [''PATH'' \<mapsto> ''/opt/bin/:/usr/bin'']\<rparr>)
      (Path [] ''/'' [''opt'', ''bin'']) (host_with [])
   = (Inr (), host_with [],
      [Stdout ''warn: /opt/bin is not on your PATH.'',
       Stdout (''warn: Add this to your shell profile: export PATH='' @ [CHR 0x22] @ ''/opt/bin:$PATH''
               @ [CHR 0x22])])
   \<and> check_path ((linux_env [])\<lparr>environ := [''PATH'' \<mapsto> ''/usr/bin:/opt/bin'']\<rparr>)
      (Path [] ''/'' [''opt'', ''bin'']) (host_with [])
   = (Inr (), host_with [], [])
   \<and> snd (snd (check_path ((linux_env [])\<lparr>environ := Map.empty\<rparr>)
      (Path [] ''/'' [''opt'', ''bin'']) (host_with []))) \<noteq> []"
proof -
  let ?E1 = "(linux_env [])\<lparr>environ := [''PATH'' \<mapsto> ''/opt/bin/:/usr/bin'']\<rparr>"
  let ?E2 = "(linux_env [])\<lparr>environ := [''PATH'' \<mapsto> ''/usr/bin:/opt/bin'']\<rparr>"
  let ?E3 = "(linux_env [])\<lparr>environ := Map.empty\<rparr>"
  let ?d = "Path [] ''/'' [''opt'', ''bin'']"
  have "environ ?E3 ''PATH'' = None \<and> [] \<notin> set (parts ?d)" by simp
  then have "snd (snd (check_path ?E3 ?d (host_with []))) \<noteq> []"
    using check_path_exact_segments [of ?E3 ?d "host_with []" "[]"] by blast
  moreover have "check_path ?E1 ?d (host_with [])
   = (Inr (), host_with [],
      [Stdout ''warn: /opt/bin is not on your PATH.'',
       Stdout (''warn: Add this to your shell profile: export PATH='' @ [CHR 0x22] @ ''/opt/bin:$PATH''
               @ [CHR 0x22])])"
    using check_path_exact_segments [of ?E1 ?d "host_with []" "[]"]
    by (simp add: linux_env_def fmt_path_def str_path_def path_sep_def IS_WINDOWS_def pathsep_def
        str_split_sep_def ansi_c_def USE_COLOR_def)
  moreover have "check_path ?E2 ?d (host_with []) = (Inr (), host_with [], [])"
    using check_path_exact_segments [of ?E2 ?d "host_with []" "[]"]
    by (simp add: linux_env_def fmt_path_def str_path_def path_sep_def IS_WINDOWS_def pathsep_def
        str_split_sep_def ansi_c_def USE_COLOR_def)
  ultimately show ?thesis by blast
qed

subsection \<open>Installer\<close>

















subsection \<open>Configuration emitter\<close>

lemma and_then_Inr:
  "and_then m f h = (Inr b, h2, ev) \<Longrightarrow>
   \<exists>a h1 ev1 ev2. m h = (Inr a, h1, ev1) \<and> f a h1 = (Inr b, h2, ev2) \<and> ev = ev1 @ ev2"
  by (auto simp: and_then_def split: prod.splits sum.splits)

lemma print_config_run:
  "print_config E p h =
     (Inr (), h,
      [Stdout [], Stdout rule_line, Stdout ''  Add to your MCP client configuration:'',
       Stdout rule_line, Stdout (snippet (fmt_path E p)),
       Stdout (''Claude Desktop config: '' @ fmt_path E (desktop_config E)),
       Stdout ''Claude Code config:    .mcp.json in your project root'', Stdout []])"
  by (simp add: print_config_def prog_defs)

lemma install_binary_returns:
  "install_binary E b d h = (Inr p, h1, ev) \<Longrightarrow> p = joinpath d (BIN_NAME E)"
  by (auto simp: install_binary_def and_then_def file_op_def info_def emit_def return_def Let_def
      split: sum.splits prod.splits if_splits)

text \<open>
  C9, as amended. When \<open>main\<close> returns, the last things printed are the configuration block
  and the closing line. The block holds one object of the shape
  \<open>{"mcpServers": {"markitdown": {"command": "<path>"}}}\<close>: without its whitespace the printed
  text is exactly that, around the path. The path is the install directory joined with the
  binary name, as the installer returned it; it is absolute exactly when the install
  directory is.
\<close>

theorem config_snippet_on_success:
  assumes "main E a h = (Inr u, h1, ev)"
  shows "(\<exists>ev0. ev = ev0 @
        [Stdout [], Stdout rule_line, Stdout ''  Add to your MCP client configuration:'',
         Stdout rule_line,
         Stdout (snippet (fmt_path E (joinpath (prefix a) (BIN_NAME E)))),
         Stdout (''Claude Desktop config: '' @ fmt_path E (desktop_config E)),
         Stdout ''Claude Code config:    .mcp.json in your project root'', Stdout [],
         Stdout (ansi_c E ''0;32'' ''==>'' @ '' '' @ ''Done. Restart your MCP client to pick up the new server.'')])
     \<and> filter (\<lambda>c. \<not> str_isspace c) (snippet p)
         = [CHR ''{'', CHR 0x22] @ ''mcpServers'' @ [CHR 0x22] @ '':{'' @ [CHR 0x22] @ ''markitdown''
           @ [CHR 0x22] @ '':{'' @ [CHR 0x22] @ ''command'' @ [CHR 0x22] @ '':'' @ [CHR 0x22]
           @ filter (\<lambda>c. \<not> str_isspace c) p @ [CHR 0x22] @ ''}}}''
     \<and> is_absolute (IS_WINDOWS E) (joinpath (prefix a) (BIN_NAME E))
         = is_absolute (IS_WINDOWS E) (prefix a)"
proof (intro conjI)
  from assms obtain u1 s1 e1 r1 where
    "check_go E h = (Inr u1, s1, e1)"
    and "and_then (check_tesseract E (with_ocr a)) (\<lambda>_.
           and_then (build E) (\<lambda>bin_path.
           and_then (install_binary E bin_path (prefix a)) (\<lambda>full_path.
           and_then (check_path E (prefix a)) (\<lambda>_.
           and_then (print_config E full_path) (\<lambda>_.
           info E ''Done. Restart your MCP client to pick up the new server.''))))) s1 = (Inr u, h1, r1)"
    and "ev = e1 @ r1"
    unfolding main_def by (blast dest: and_then_Inr)
  moreover then obtain u2 s2 e2 r2 where
    "check_tesseract E (with_ocr a) s1 = (Inr u2, s2, e2)"
    and "and_then (build E) (\<lambda>bin_path.
           and_then (install_binary E bin_path (prefix a)) (\<lambda>full_path.
           and_then (check_path E (prefix a)) (\<lambda>_.
           and_then (print_config E full_path) (\<lambda>_.
           info E ''Done. Restart your MCP client to pick up the new server.'')))) s2 = (Inr u, h1, r2)"
    and "r1 = e2 @ r2"
    by (blast dest: and_then_Inr)
  moreover then obtain bin_path s3 e3 r3 where
    "build E s2 = (Inr bin_path, s3, e3)"
    and "and_then (install_binary E bin_path (prefix a)) (\<lambda>full_path.
           and_then (check_path E (prefix a)) (\<lambda>_.
           and_then (print_config E full_path) (\<lambda>_.
           info E ''Done. Restart your MCP client to pick up the new server.''))) s3 = (Inr u, h1, r3)"
    and "r2 = e3 @ r3"
    by (blast dest: and_then_Inr)
  moreover then obtain full_path s4 e4 r4 where
    inst: "install_binary E bin_path (prefix a) s3 = (Inr full_path, s4, e4)"
    and "and_then (check_path E (prefix a)) (\<lambda>_.
           and_then (print_config E full_path) (\<lambda>_.
           info E ''Done. Restart your MCP client to pick up the new server.'')) s4 = (Inr u, h1, r4)"
    and "r3 = e4 @ r4"
    by (blast dest: and_then_Inr)
  moreover then obtain u5 s5 e5 r5 where
    "check_path E (prefix a) s4 = (Inr u5, s5, e5)"
    and last: "and_then (print_config E full_path) (\<lambda>_.
           info E ''Done. Restart your MCP client to pick up the new server.'') s5 = (Inr u, h1, r5)"
    and "r4 = e5 @ r5"
    by (blast dest: and_then_Inr)
  moreover have "full_path = joinpath (prefix a) (BIN_NAME E)"
    using inst by (rule install_binary_returns)
  moreover from last have "r5 =
        [Stdout [], Stdout rule_line, Stdout ''  Add to your MCP client configuration:'',
         Stdout rule_line, Stdout (snippet (fmt_path E full_path)),
         Stdout (''Claude Desktop config: '' @ fmt_path E (desktop_config E)),
         Stdout ''Claude Code config:    .mcp.json in your project root'', Stdout [],
         Stdout (ansi_c E ''0;32'' ''==>'' @ '' '' @ ''Done. Restart your MCP client to pick up the new server.'')]"
    by (simp add: and_then_def print_config_run info_def emit_def)
  ultimately have "ev = (e1 @ e2 @ e3 @ e4 @ e5) @
        [Stdout [], Stdout rule_line, Stdout ''  Add to your MCP client configuration:'',
         Stdout rule_line,
         Stdout (snippet (fmt_path E (joinpath (prefix a) (BIN_NAME E)))),
         Stdout (''Claude Desktop config: '' @ fmt_path E (desktop_config E)),
         Stdout ''Claude Code config:    .mcp.json in your project root'', Stdout [],
         Stdout (ansi_c E ''0;32'' ''==>'' @ '' '' @ ''Done. Restart your MCP client to pick up the new server.'')]"
    by simp
  then show "\<exists>ev0. ev = ev0 @
        [Stdout [], Stdout rule_line, Stdout ''  Add to your MCP client configuration:'',
         Stdout rule_line,
         Stdout (snippet (fmt_path E (joinpath (prefix a) (BIN_NAME E)))),
         Stdout (''Claude Desktop config: '' @ fmt_path E (desktop_config E)),
         Stdout ''Claude Code config:    .mcp.json in your project root'', Stdout [],
         Stdout (ansi_c E ''0;32'' ''==>'' @ '' '' @ ''Done. Restart your MCP client to pick up the new server.'')]"
    by blast
next
  show "filter (\<lambda>c. \<not> str_isspace c) (snippet p)
         = [CHR ''{'', CHR 0x22] @ ''mcpServers'' @ [CHR 0x22] @ '':{'' @ [CHR 0x22] @ ''markitdown''
           @ [CHR 0x22] @ '':{'' @ [CHR 0x22] @ ''command'' @ [CHR 0x22] @ '':'' @ [CHR 0x22]
           @ filter (\<lambda>c. \<not> str_isspace c) p @ [CHR 0x22] @ ''}}}''"
    by (simp add: snippet_def str_isspace_def)
next
  show "is_absolute (IS_WINDOWS E) (joinpath (prefix a) (BIN_NAME E))
         = is_absolute (IS_WINDOWS E) (prefix a)"
    by (simp add: is_absolute_def joinpath_def)
qed

lemma sample_run_succeeds:
  "fst (main (linux_env ''go version go1.24.0 linux/amd64\<newline>'')
      \<lparr>with_ocr = False, prefix = Path [] ''/'' [''home'', ''u'', ''.local'', ''bin'']\<rparr>
      repo_host) = Inr ()"
  by code_simp

theorem config_snippet_on_success_witness:
  "\<exists>ev0. snd (snd (main (linux_env ''go version go1.24.0 linux/amd64\<newline>'')
      \<lparr>with_ocr = False, prefix = Path [] ''/'' [''home'', ''u'', ''.local'', ''bin'']\<rparr>
      repo_host))
    = ev0 @
        [Stdout [], Stdout rule_line, Stdout ''  Add to your MCP client configuration:'',
         Stdout rule_line,
         Stdout (snippet ''/home/u/.local/bin/markitdown-mcp''),
         Stdout ''Claude Desktop config: /home/u/.config/Claude/claude_desktop_config.json'',
         Stdout ''Claude Code config:    .mcp.json in your project root'', Stdout [],
         Stdout ''==> Done. Restart your MCP client to pick up the new server.'']"
proof -
  let ?E = "linux_env ''go version go1.24.0 linux/amd64\<newline>''"
  let ?a = "\<lparr>with_ocr = False, prefix = Path [] ''/'' [''home'', ''u'', ''.local'', ''bin'']\<rparr>"
  obtain h1 ev where run: "main ?E ?a repo_host = (Inr (), h1, ev)"
    using sample_run_succeeds by (cases "main ?E ?a repo_host") auto
  have p: "fmt_path ?E (joinpath (prefix ?a) (BIN_NAME ?E)) = ''/home/u/.local/bin/markitdown-mcp''"
    by (simp add: fmt_path_def str_path_def joinpath_def BIN_NAME_def IS_WINDOWS_def linux_env_def
        path_sep_def)
  have c: "fmt_path ?E (desktop_config ?E) = ''/home/u/.config/Claude/claude_desktop_config.json''"
    by (simp add: fmt_path_def str_path_def joinpath_def desktop_config_def IS_WINDOWS_def
        linux_env_def path_sep_def)
  have i: "ansi_c ?E ''0;32'' ''==>'' = ''==>''"
    by (simp add: ansi_c_def USE_COLOR_def linux_env_def)
  from config_snippet_on_success [OF run] show ?thesis
    unfolding run p c i by simp
qed

text \<open>
  C9 as stated fails: with the relative install directory \<open>bin\<close> the run succeeds and the
  printed command is \<open>bin/markitdown-mcp\<close>, which is not an absolute path.
\<close>

theorem relative_prefix_counterexample:
  "fst (script (linux_env ''go version go1.24.0 linux/amd64\<newline>'')
          \<lparr>with_ocr = False, prefix = Path [] [] [''bin'']\<rparr> repo_host) = 0
   \<and> Stdout (snippet ''bin/markitdown-mcp'')
       \<in> set (snd (snd (script (linux_env ''go version go1.24.0 linux/amd64\<newline>'')
          \<lparr>with_ocr = False, prefix = Path [] [] [''bin'']\<rparr> repo_host)))
   \<and> \<not> is_absolute False (Path [] [] [''bin'', ''markitdown-mcp''])"
  by code_simp

subsection \<open>Failure reporting\<close>

lemma stderr_of_append: "stderr_of (xs @ ys) = stderr_of xs @ stderr_of ys"
  by (induction xs rule: stderr_of.induct) simp_all

lemma outcome_ok_exit:
  "outcome_ok E (Inl (SystemExit n), h1, ev)
     = (n = 1 \<and> (\<exists>msg. stderr_of ev = [ansi_c E ''0;31'' ''error:'' @ '' '' @ msg]))"
  by (simp add: outcome_ok_def)

lemma outcome_ok_other:
  "\<forall>n. r \<noteq> Inl (SystemExit n) \<Longrightarrow> outcome_ok E (r, h1, ev) = (stderr_of ev = [])"
  by (auto simp: outcome_ok_def split: sum.splits py_exception.splits)

lemma outcome_ok_Inr: "outcome_ok E (Inr a, h1, ev) = (stderr_of ev = [])"
  by (simp add: outcome_ok_def)

lemma outcome_ok_prefix:
  assumes "stderr_of ev1 = []" and "outcome_ok E (r, h2, ev2)"
  shows "outcome_ok E (r, h2', ev1 @ ev2)"
  using assms by (auto simp: outcome_ok_def stderr_of_append split: sum.splits py_exception.splits)

lemma outcome_ok_Inl:
  "outcome_ok E (Inl e :: py_exception + 'a, h1, ev) \<Longrightarrow> outcome_ok E (Inl e :: py_exception + 'b, h1, ev)"
  by (simp add: outcome_ok_def split: py_exception.splits)

lemma tidy_return: "tidy E (return a)"
  by (simp add: tidy_def return_def outcome_ok_Inr)

lemma tidy_info: "tidy E (info E msg)"
  by (simp add: tidy_def info_def emit_def outcome_ok_Inr)

lemma tidy_warn: "tidy E (warn E msg)"
  by (simp add: tidy_def warn_def emit_def outcome_ok_Inr)

lemma tidy_emit_stdout: "tidy E (emit (Stdout s))"
  by (simp add: tidy_def emit_def outcome_ok_Inr)

lemma tidy_die: "tidy E (die E msg)"
  by (auto simp: tidy_def die_def error_def prog_defs outcome_ok_exit)

lemma tidy_which: "tidy E (which name)"
  by (simp add: tidy_def which_def outcome_ok_Inr)

lemma tidy_lift: "\<forall>n. r \<noteq> Inl (SystemExit n) \<Longrightarrow> tidy E (lift r)"
  by (simp add: tidy_def lift_def outcome_ok_other)

lemma tidy_subprocess_run: "tidy E (subprocess_run E cmd cwd check)"
proof -
  have "outcome_ok E (subprocess_run E cmd cwd check h)" for h
  proof (cases "items cmd")
    case Nil
    then show ?thesis by (simp add: subprocess_run_def outcome_ok_other)
  next
    case (Cons exe args)
    show ?thesis
    proof (cases "spawn_error E exe cwd h")
      case (Some e)
      have "e \<noteq> SystemExit n" for n
        using Some by (auto simp: spawn_error_def split: option.splits node.splits if_splits)
      then have "\<forall>n. (Inl e :: py_exception + CompletedProcess) \<noteq> Inl (SystemExit n)" by simp
      with Cons Some show ?thesis by (simp add: subprocess_run_def outcome_ok_other)
    next
      case None
      with Cons show ?thesis
        by (auto simp: subprocess_run_def outcome_ok_other outcome_ok_Inr split: prod.splits)
    qed
  qed
  then show ?thesis by (simp add: tidy_def)
qed

lemma tidy_file_op:
  assumes "\<And>h n. fst (f h) \<noteq> Inl (SystemExit n)" and "stderr_of [e] = []"
  shows "tidy E (file_op e f)"
  unfolding tidy_def
proof
  fix h
  obtain r h1 where f: "f h = (r, h1)" by (cases "f h")
  with assms(1) [of h] have "\<forall>n. r \<noteq> Inl (SystemExit n)" by auto
  then have "outcome_ok E (r, h1, [e]) = (stderr_of [e] = [])" by (rule outcome_ok_other)
  with f assms(2) show "outcome_ok E (file_op e f h)" by (simp add: file_op_def)
qed

lemma tidy_and_then:
  assumes "tidy E m" and "\<And>a. tidy E (f a)"
  shows "tidy E (and_then m f)"
  unfolding tidy_def
proof
  fix h
  obtain r h1 ev1 where m: "m h = (r, h1, ev1)" by (cases "m h")
  from assms(1) have ok1: "outcome_ok E (r, h1, ev1)" unfolding tidy_def m [symmetric] by blast
  show "outcome_ok E (and_then m f h)"
  proof (cases r)
    case (Inl e)
    with ok1 have "outcome_ok E (Inl e :: py_exception + 'c, h1, ev1)" by (auto dest: outcome_ok_Inl)
    with m Inl show ?thesis by (simp add: and_then_def)
  next
    case (Inr a)
    obtain r2 h2 ev2 where f: "f a h1 = (r2, h2, ev2)" by (cases "f a h1")
    from assms(2) [of a] have "outcome_ok E (r2, h2, ev2)" unfolding tidy_def f [symmetric] by blast
    moreover from ok1 Inr have "stderr_of ev1 = []" by (simp add: outcome_ok_Inr)
    ultimately have "outcome_ok E (r2, h2, ev1 @ ev2)" by (rule outcome_ok_prefix [rotated])
    with m Inr f show ?thesis by (simp add: and_then_def)
  qed
qed

lemma tidy_try:
  assumes "tidy E m" and "\<And>cmd rc. tidy E (handler cmd rc)"
  shows "tidy E (try_except_CalledProcessError m handler)"
  unfolding tidy_def
proof
  fix h
  obtain r h1 ev1 where m: "m h = (r, h1, ev1)" by (cases "m h")
  from assms(1) have ok1: "outcome_ok E (r, h1, ev1)" unfolding tidy_def m [symmetric] by blast
  show "outcome_ok E (try_except_CalledProcessError m handler h)"
  proof (cases "\<exists>cmd rc. r = Inl (CalledProcessError cmd rc)")
    case True
    then obtain cmd rc where r: "r = Inl (CalledProcessError cmd rc)" by blast
    obtain r2 h2 ev2 where f: "handler cmd rc h1 = (r2, h2, ev2)" by (cases "handler cmd rc h1")
    from assms(2) [of cmd rc] have "outcome_ok E (r2, h2, ev2)" unfolding tidy_def f [symmetric] by blast
    moreover from ok1 r have "stderr_of ev1 = []" by (simp add: outcome_ok_def)
    ultimately have "outcome_ok E (r2, h2, ev1 @ ev2)" by (rule outcome_ok_prefix [rotated])
    with m r f show ?thesis by (simp add: try_except_CalledProcessError_def)
  next
    case False
    then have "try_except_CalledProcessError m handler h = (r, h1, ev1)"
      using m by (auto simp: try_except_CalledProcessError_def split: sum.splits py_exception.splits)
    with ok1 show ?thesis by simp
  qed
qed

lemma tidy_if: "tidy E m \<Longrightarrow> tidy E n \<Longrightarrow> tidy E (if c then m else n)"
  by simp

lemma py_index_error: "py_index xs i = Inl e \<Longrightarrow> e = IndexError"
  by (simp add: py_index_def split: if_splits)

lemma py_int_error: "py_int lim s = Inl e \<Longrightarrow> e = ValueError"
  by (auto simp: py_int_def Let_def split: list.splits if_splits option.splits prod.splits)

lemma parse_version_error:
  "parse_version lim out = Inl e \<Longrightarrow> e = IndexError \<or> e = ValueError"
  by (auto simp: parse_version_def Let_def split: sum.splits dest: py_index_error py_int_error)

lemma parent_error_kind: "parent_error E h p = Some e \<Longrightarrow> e \<noteq> SystemExit n"
  by (auto simp: parent_error_def split: if_splits option.splits node.splits)

lemma os_mkdir_error: "fst (os_mkdir E p h) \<noteq> Inl (SystemExit n)"
  by (auto simp: os_mkdir_def split: option.splits node.splits dest: parent_error_kind)

lemma Path_mkdir_error: "fst (Path_mkdir E parents exist_ok p h) \<noteq> Inl (SystemExit n)"
proof (induction E parents exist_ok p h rule: Path_mkdir.induct)
  case (1 E parents exist_ok p h)
  obtain r h1 where o: "os_mkdir E p h = (r, h1)" by (cases "os_mkdir E p h")
  show ?case
  proof (cases r)
    case (Inr u)
    with o show ?thesis by (subst Path_mkdir.simps) simp
  next
    case (Inl e)
    with o have e: "e \<noteq> SystemExit n" using os_mkdir_error [of E p h n] by auto
    show ?thesis
    proof (cases "e = FileNotFoundError \<and> \<not> (\<not> parents \<or> parent p = p)")
      case True
      obtain r2 h2 where m: "Path_mkdir E True True (parent p) h1 = (r2, h2)"
        by (cases "Path_mkdir E True True (parent p) h1")
      have ih1: "fst (Path_mkdir E True True (parent p) h1) \<noteq> Inl (SystemExit n)"
        using "1.IH"(1) [of r h1 e] o Inl True by auto
      show ?thesis
      proof (cases r2)
        case l: (Inl e1)
        with m ih1 have "e1 \<noteq> SystemExit n" by simp
        with o Inl True m l show ?thesis by (subst Path_mkdir.simps) simp
      next
        case r: (Inr u)
        have "fst (Path_mkdir E False exist_ok p h2) \<noteq> Inl (SystemExit n)"
          using "1.IH"(2) [of r h1 e r2 h2 u] o Inl True m r by auto
        with o Inl True m r show ?thesis by (subst Path_mkdir.simps) simp
      qed
    next
      case False
      with o Inl e show ?thesis by (subst Path_mkdir.simps) auto
    qed
  qed
qed

lemma open_read_error: "open_read E h p = Inl e \<Longrightarrow> e \<noteq> SystemExit n"
  by (auto simp: open_read_def split: option.splits node.splits if_splits dest: parent_error_kind)

lemma write_file_error: "fst (write_file E p c h) \<noteq> Inl (SystemExit n)"
  by (auto simp: write_file_def split: option.splits node.splits dest: parent_error_kind)

lemma copystat_error: "fst (copystat E pm mt p h) \<noteq> Inl (SystemExit n)"
  by (auto simp: copystat_def split: option.splits node.splits)

lemma copy2_error: "fst (copy2 E src dst h) \<noteq> Inl (SystemExit n)"
proof -
  let ?dst1 = "if isdir E h dst then joinpath dst (basename src) else dst"
  show ?thesis
  proof (cases "samefile E h src ?dst1")
    case True
    then show ?thesis by (simp add: copy2_def Let_def)
  next
    case False
    show ?thesis
    proof (cases "open_read E h src")
      case (Inl e)
      with False open_read_error [OF Inl, of n] show ?thesis by (simp add: copy2_def Let_def)
    next
      case (Inr t)
      obtain pm mt c where t: "t = (pm, mt, c)" by (cases t)
      obtain r h1 where w: "write_file E ?dst1 c h = (r, h1)" by (cases "write_file E ?dst1 c h")
      show ?thesis
      proof (cases r)
        case l: (Inl e)
        with w write_file_error [of E ?dst1 c h n] have "e \<noteq> SystemExit n" by auto
        with False Inr t w l show ?thesis by (simp add: copy2_def Let_def)
      next
        case u: (Inr u)
        with False Inr t w copystat_error [of E pm mt ?dst1 h1 n]
        show ?thesis by (simp add: copy2_def Let_def)
      qed
    qed
  qed
qed

lemma chmod_error: "fst (chmod E p m h) \<noteq> Inl (SystemExit n)"
  by (auto simp: chmod_def split: option.splits node.splits dest: parent_error_kind)

lemma tidy_run: "tidy E (run E cmd cwd check)"
  by (simp add: run_def tidy_subprocess_run)

lemma tidy_check_go: "tidy E (check_go E)"
  unfolding check_go_def
  by (intro tidy_and_then tidy_which tidy_if tidy_die tidy_return tidy_run tidy_info)
     (auto intro!: tidy_lift tidy_and_then tidy_if tidy_die tidy_return tidy_info
           dest: parse_version_error simp: split_def)

lemma tidy_first_on_path: "tidy E (first_on_path pms)"
  by (induction pms) (auto intro!: tidy_return tidy_and_then tidy_which)

lemma tidy_install_cmd: "tidy E (install_cmd E cmd)"
  unfolding install_cmd_def by (intro tidy_and_then tidy_subprocess_run tidy_return)

lemma tidy_install_tesseract: "tidy E (install_tesseract E)"
  unfolding install_tesseract_def detect_pkg_manager_def
  by (intro tidy_and_then tidy_first_on_path tidy_info tidy_try tidy_if tidy_install_cmd
        tidy_warn tidy_die)

lemma tidy_tesseract_version: "tidy E (tesseract_version E)"
  unfolding tesseract_version_def Let_def
  by (intro tidy_and_then tidy_run tidy_if tidy_return)
     (auto intro!: tidy_lift dest: py_index_error)

lemma tidy_check_tesseract: "tidy E (check_tesseract E w)"
  unfolding check_tesseract_def
  by (intro tidy_and_then tidy_which tidy_if tidy_tesseract_version tidy_info
        tidy_install_tesseract tidy_warn)

lemma tidy_build: "tidy E (build E)"
  unfolding build_def Let_def
  by (intro tidy_and_then tidy_info tidy_try tidy_run tidy_return tidy_die)

lemma tidy_install_binary: "tidy E (install_binary E b d)"
  unfolding install_binary_def Let_def
  by (intro tidy_and_then tidy_file_op tidy_if tidy_return tidy_info)
     (simp_all add: Path_mkdir_error copy2_error chmod_error)

lemma tidy_check_path: "tidy E (check_path E d)"
  unfolding check_path_def Let_def
  by (intro tidy_and_then tidy_if tidy_warn tidy_return)

lemma tidy_print_config: "tidy E (print_config E p)"
  unfolding print_config_def
  by (intro tidy_and_then tidy_emit_stdout)

lemma tidy_main: "tidy E (main E a)"
  unfolding main_def
  by (intro tidy_and_then tidy_check_go tidy_check_tesseract tidy_build tidy_install_binary
        tidy_check_path tidy_print_config tidy_info)

lemma contained_and_then:
  assumes "contained m" and "\<And>a. contained (f a)"
  shows "contained (and_then m f)"
  unfolding contained_def
proof (intro allI)
  fix h cmd rc
  obtain r h1 ev1 where m: "m h = (r, h1, ev1)" by (cases "m h")
  show "fst (and_then m f h) \<noteq> Inl (CalledProcessError cmd rc)"
  proof (cases r)
    case (Inl e)
    with assms(1) m have "e \<noteq> CalledProcessError cmd rc"
      unfolding contained_def by (metis fst_conv)
    with m Inl show ?thesis by (simp add: and_then_def)
  next
    case (Inr x)
    obtain r2 h2 ev2 where f: "f x h1 = (r2, h2, ev2)" by (cases "f x h1")
    with assms(2) [of x] have "r2 \<noteq> Inl (CalledProcessError cmd rc)"
      unfolding contained_def by (metis fst_conv)
    with m Inr f show ?thesis by (simp add: and_then_def)
  qed
qed

lemma contained_try:
  assumes "\<And>c rc. contained (handler c rc)"
  shows "contained (try_except_CalledProcessError m handler)"
  unfolding contained_def
proof (intro allI)
  fix h cmd rc
  obtain r h1 ev1 where m: "m h = (r, h1, ev1)" by (cases "m h")
  show "fst (try_except_CalledProcessError m handler h) \<noteq> Inl (CalledProcessError cmd rc)"
  proof (cases "\<exists>c0 rc0. r = Inl (CalledProcessError c0 rc0)")
    case True
    then obtain c0 rc0 where r: "r = Inl (CalledProcessError c0 rc0)" by blast
    obtain r2 h2 ev2 where f: "handler c0 rc0 h1 = (r2, h2, ev2)" by (cases "handler c0 rc0 h1")
    with assms [of c0 rc0] have "r2 \<noteq> Inl (CalledProcessError cmd rc)"
      unfolding contained_def by (metis fst_conv)
    with m r f show ?thesis by (simp add: try_except_CalledProcessError_def)
  next
    case False
    then have "try_except_CalledProcessError m handler h = (r, h1, ev1)"
      using m by (auto simp: try_except_CalledProcessError_def split: sum.splits py_exception.splits)
    with False show ?thesis by auto
  qed
qed

lemma contained_simple:
  "contained (return a)" "contained (info E msg)" "contained (warn E msg)"
  "contained (die E msg)" "contained (which name)"
  by (simp_all add: contained_def info_def warn_def die_def error_def prog_defs)

lemma contained_first_on_path: "contained (first_on_path pms)"
  by (induction pms) (auto intro!: contained_and_then contained_simple)

lemma contained_install_tesseract: "contained (install_tesseract E)"
  unfolding install_tesseract_def detect_pkg_manager_def
  by (intro contained_and_then contained_first_on_path contained_simple contained_try)

lemma contained_build: "contained (build E)"
  unfolding build_def Let_def
  by (intro contained_and_then contained_simple contained_try)

lemma detect_result: "fst (detect_pkg_manager h) = Inr pm \<Longrightarrow> detect_pkg_manager h = (Inr pm, h, [])"
  by (simp add: detect_pkg_manager_def first_on_path_filter)

lemma run_result:
  assumes "starts E cmd cwd h" and "programs E cmd cwd h = (r, h1)"
  shows "subprocess_run E (PyTuple cmd) cwd True h =
           (if returncode r \<noteq> 0 then Inl (CalledProcessError (PyTuple cmd) (returncode r)) else Inr r,
            h1, [Spawn (PyTuple cmd) cwd])"
  using assms
  by (auto simp: starts_def subprocess_run_def split: list.splits)

lemma install_cmd_result:
  assumes "starts E cmd None h" and "programs E cmd None h = (r, h1)"
  shows "install_cmd E cmd h =
           (if returncode r \<noteq> 0 then Inl (CalledProcessError (PyList cmd) (returncode r)) else Inr (),
            h1, [Spawn (PyList cmd) None])"
  using assms
  by (auto simp: starts_def subprocess_run_def install_cmd_def prog_defs split: list.splits)

lemma provision_dies:
  assumes "install_cmd E cmd h = (Inl (CalledProcessError (PyList cmd) rc), h1, ev)"
  shows "try_except_CalledProcessError (install_cmd E cmd)
           (\<lambda>c rc. die E (''Failed to install Tesseract: '' @ str_CalledProcessError E c rc)) h
         = (Inl (SystemExit 1), h1,
            ev @ [Stderr (ansi_c E ''0;31'' ''error:'' @ '' '' @ ''Failed to install Tesseract: ''
                          @ str_CalledProcessError E (PyList cmd) rc)])"
  using assms
  by (simp add: try_except_CalledProcessError_def die_def error_def prog_defs)

lemma provision_fails_brew:
  assumes det: "fst (detect_pkg_manager h) = Inr ''brew''"
    and st: "starts E [''brew'', ''install'', ''tesseract''] None h"
    and pr: "programs E [''brew'', ''install'', ''tesseract''] None h = (r, h1)"
    and rc: "returncode r \<noteq> 0"
  shows "install_tesseract E h =
     (Inl (SystemExit 1), h1,
      [Stdout (ansi_c E ''0;32'' ''==>'' @ '' '' @ ''Installing Tesseract using package manager: '' @ ''brew''),
       Spawn (PyList [''brew'', ''install'', ''tesseract'']) None,
       Stderr (ansi_c E ''0;31'' ''error:'' @ '' '' @ ''Failed to install Tesseract: ''
               @ str_CalledProcessError E (PyList [''brew'', ''install'', ''tesseract'']) (returncode r))])"
proof -
  have d: "detect_pkg_manager h = (Inr ''brew'', h, [])" using det by (rule detect_result)
  have c: "install_cmd E [''brew'', ''install'', ''tesseract''] h
      = (Inl (CalledProcessError (PyList [''brew'', ''install'', ''tesseract'']) (returncode r)), h1, [Spawn (PyList [''brew'', ''install'', ''tesseract'']) None])"
    using st pr rc by (simp add: install_cmd_result)
  from d c show ?thesis
    by (simp add: install_tesseract_def try_except_CalledProcessError_def die_def error_def
        info_def prog_defs)
qed

lemma provision_fails_apt_get:
  assumes det: "fst (detect_pkg_manager h) = Inr ''apt-get''"
    and st: "starts E [''sudo'', ''apt-get'', ''update'', ''-q''] None h"
    and pr: "programs E [''sudo'', ''apt-get'', ''update'', ''-q''] None h = (r, h1)"
    and rc: "returncode r \<noteq> 0"
  shows "install_tesseract E h =
     (Inl (SystemExit 1), h1,
      [Stdout (ansi_c E ''0;32'' ''==>'' @ '' '' @ ''Installing Tesseract using package manager: '' @ ''apt-get''),
       Spawn (PyList [''sudo'', ''apt-get'', ''update'', ''-q'']) None,
       Stderr (ansi_c E ''0;31'' ''error:'' @ '' '' @ ''Failed to install Tesseract: ''
               @ str_CalledProcessError E (PyList [''sudo'', ''apt-get'', ''update'', ''-q'']) (returncode r))])"
proof -
  have d: "detect_pkg_manager h = (Inr ''apt-get'', h, [])" using det by (rule detect_result)
  have c: "install_cmd E [''sudo'', ''apt-get'', ''update'', ''-q''] h
      = (Inl (CalledProcessError (PyList [''sudo'', ''apt-get'', ''update'', ''-q'']) (returncode r)), h1, [Spawn (PyList [''sudo'', ''apt-get'', ''update'', ''-q'']) None])"
    using st pr rc by (simp add: install_cmd_result)
  from d c show ?thesis
    by (simp add: install_tesseract_def try_except_CalledProcessError_def die_def error_def
        info_def prog_defs)
qed

lemma provision_fails_dnf:
  assumes det: "fst (detect_pkg_manager h) = Inr ''dnf''"
    and st: "starts E [''sudo'', ''dnf'', ''install'', ''-y'', ''tesseract''] None h"
    and pr: "programs E [''sudo'', ''dnf'', ''install'', ''-y'', ''tesseract''] None h = (r, h1)"
    and rc: "returncode r \<noteq> 0"
  shows "install_tesseract E h =
     (Inl (SystemExit 1), h1,
      [Stdout (ansi_c E ''0;32'' ''==>'' @ '' '' @ ''Installing Tesseract using package manager: '' @ ''dnf''),
       Spawn (PyList [''sudo'', ''dnf'', ''install'', ''-y'', ''tesseract'']) None,
       Stderr (ansi_c E ''0;31'' ''error:'' @ '' '' @ ''Failed to install Tesseract: ''
               @ str_CalledProcessError E (PyList [''sudo'', ''dnf'', ''install'', ''-y'', ''tesseract'']) (returncode r))])"
proof -
  have d: "detect_pkg_manager h = (Inr ''dnf'', h, [])" using det by (rule detect_result)
  have c: "install_cmd E [''sudo'', ''dnf'', ''install'', ''-y'', ''tesseract''] h
      = (Inl (CalledProcessError (PyList [''sudo'', ''dnf'', ''install'', ''-y'', ''tesseract'']) (returncode r)), h1, [Spawn (PyList [''sudo'', ''dnf'', ''install'', ''-y'', ''tesseract'']) None])"
    using st pr rc by (simp add: install_cmd_result)
  from d c show ?thesis
    by (simp add: install_tesseract_def try_except_CalledProcessError_def die_def error_def
        info_def prog_defs)
qed

lemma provision_fails_yum:
  assumes det: "fst (detect_pkg_manager h) = Inr ''yum''"
    and st: "starts E [''sudo'', ''yum'', ''install'', ''-y'', ''tesseract''] None h"
    and pr: "programs E [''sudo'', ''yum'', ''install'', ''-y'', ''tesseract''] None h = (r, h1)"
    and rc: "returncode r \<noteq> 0"
  shows "install_tesseract E h =
     (Inl (SystemExit 1), h1,
      [Stdout (ansi_c E ''0;32'' ''==>'' @ '' '' @ ''Installing Tesseract using package manager: '' @ ''yum''),
       Spawn (PyList [''sudo'', ''yum'', ''install'', ''-y'', ''tesseract'']) None,
       Stderr (ansi_c E ''0;31'' ''error:'' @ '' '' @ ''Failed to install Tesseract: ''
               @ str_CalledProcessError E (PyList [''sudo'', ''yum'', ''install'', ''-y'', ''tesseract'']) (returncode r))])"
proof -
  have d: "detect_pkg_manager h = (Inr ''yum'', h, [])" using det by (rule detect_result)
  have c: "install_cmd E [''sudo'', ''yum'', ''install'', ''-y'', ''tesseract''] h
      = (Inl (CalledProcessError (PyList [''sudo'', ''yum'', ''install'', ''-y'', ''tesseract'']) (returncode r)), h1, [Spawn (PyList [''sudo'', ''yum'', ''install'', ''-y'', ''tesseract'']) None])"
    using st pr rc by (simp add: install_cmd_result)
  from d c show ?thesis
    by (simp add: install_tesseract_def try_except_CalledProcessError_def die_def error_def
        info_def prog_defs)
qed

lemma provision_fails_pacman:
  assumes det: "fst (detect_pkg_manager h) = Inr ''pacman''"
    and st: "starts E [''sudo'', ''pacman'', ''-Sy'', ''--noconfirm'', ''tesseract'', ''tesseract-data-eng''] None h"
    and pr: "programs E [''sudo'', ''pacman'', ''-Sy'', ''--noconfirm'', ''tesseract'', ''tesseract-data-eng''] None h = (r, h1)"
    and rc: "returncode r \<noteq> 0"
  shows "install_tesseract E h =
     (Inl (SystemExit 1), h1,
      [Stdout (ansi_c E ''0;32'' ''==>'' @ '' '' @ ''Installing Tesseract using package manager: '' @ ''pacman''),
       Spawn (PyList [''sudo'', ''pacman'', ''-Sy'', ''--noconfirm'', ''tesseract'', ''tesseract-data-eng'']) None,
       Stderr (ansi_c E ''0;31'' ''error:'' @ '' '' @ ''Failed to install Tesseract: ''
               @ str_CalledProcessError E (PyList [''sudo'', ''pacman'', ''-Sy'', ''--noconfirm'', ''tesseract'', ''tesseract-data-eng'']) (returncode r))])"
proof -
  have d: "detect_pkg_manager h = (Inr ''pacman'', h, [])" using det by (rule detect_result)
  have c: "install_cmd E [''sudo'', ''pacman'', ''-Sy'', ''--noconfirm'', ''tesseract'', ''tesseract-data-eng''] h
      = (Inl (CalledProcessError (PyList [''sudo'', ''pacman'', ''-Sy'', ''--noconfirm'', ''tesseract'', ''tesseract-data-eng'']) (returncode r)), h1, [Spawn (PyList [''sudo'', ''pacman'', ''-Sy'', ''--noconfirm'', ''tesseract'', ''tesseract-data-eng'']) None])"
    using st pr rc by (simp add: install_cmd_result)
  from d c show ?thesis
    by (simp add: install_tesseract_def try_except_CalledProcessError_def die_def error_def
        info_def prog_defs)
qed

lemma provision_fails_zypper:
  assumes det: "fst (detect_pkg_manager h) = Inr ''zypper''"
    and st: "starts E [''sudo'', ''zypper'', ''install'', ''-y'', ''tesseract-ocr''] None h"
    and pr: "programs E [''sudo'', ''zypper'', ''install'', ''-y'', ''tesseract-ocr''] None h = (r, h1)"
    and rc: "returncode r \<noteq> 0"
  shows "install_tesseract E h =
     (Inl (SystemExit 1), h1,
      [Stdout (ansi_c E ''0;32'' ''==>'' @ '' '' @ ''Installing Tesseract using package manager: '' @ ''zypper''),
       Spawn (PyList [''sudo'', ''zypper'', ''install'', ''-y'', ''tesseract-ocr'']) None,
       Stderr (ansi_c E ''0;31'' ''error:'' @ '' '' @ ''Failed to install Tesseract: ''
               @ str_CalledProcessError E (PyList [''sudo'', ''zypper'', ''install'', ''-y'', ''tesseract-ocr'']) (returncode r))])"
proof -
  have d: "detect_pkg_manager h = (Inr ''zypper'', h, [])" using det by (rule detect_result)
  have c: "install_cmd E [''sudo'', ''zypper'', ''install'', ''-y'', ''tesseract-ocr''] h
      = (Inl (CalledProcessError (PyList [''sudo'', ''zypper'', ''install'', ''-y'', ''tesseract-ocr'']) (returncode r)), h1, [Spawn (PyList [''sudo'', ''zypper'', ''install'', ''-y'', ''tesseract-ocr'']) None])"
    using st pr rc by (simp add: install_cmd_result)
  from d c show ?thesis
    by (simp add: install_tesseract_def try_except_CalledProcessError_def die_def error_def
        info_def prog_defs)
qed

lemma provision_fails_choco:
  assumes det: "fst (detect_pkg_manager h) = Inr ''choco''"
    and st: "starts E [''choco'', ''install'', ''-y'', ''tesseract''] None h"
    and pr: "programs E [''choco'', ''install'', ''-y'', ''tesseract''] None h = (r, h1)"
    and rc: "returncode r \<noteq> 0"
  shows "install_tesseract E h =
     (Inl (SystemExit 1), h1,
      [Stdout (ansi_c E ''0;32'' ''==>'' @ '' '' @ ''Installing Tesseract using package manager: '' @ ''choco''),
       Spawn (PyList [''choco'', ''install'', ''-y'', ''tesseract'']) None,
       Stderr (ansi_c E ''0;31'' ''error:'' @ '' '' @ ''Failed to install Tesseract: ''
               @ str_CalledProcessError E (PyList [''choco'', ''install'', ''-y'', ''tesseract'']) (returncode r))])"
proof -
  have d: "detect_pkg_manager h = (Inr ''choco'', h, [])" using det by (rule detect_result)
  have c: "install_cmd E [''choco'', ''install'', ''-y'', ''tesseract''] h
      = (Inl (CalledProcessError (PyList [''choco'', ''install'', ''-y'', ''tesseract'']) (returncode r)), h1, [Spawn (PyList [''choco'', ''install'', ''-y'', ''tesseract'']) None])"
    using st pr rc by (simp add: install_cmd_result)
  from d c show ?thesis
    by (simp add: install_tesseract_def try_except_CalledProcessError_def die_def error_def
        info_def prog_defs)
qed

lemma install_tesseract_first_fails:
  assumes tab: "(pm, cmd) \<in> set
        [(''brew'', [''brew'', ''install'', ''tesseract'']),
         (''apt-get'', [''sudo'', ''apt-get'', ''update'', ''-q'']),
         (''dnf'', [''sudo'', ''dnf'', ''install'', ''-y'', ''tesseract'']),
         (''yum'', [''sudo'', ''yum'', ''install'', ''-y'', ''tesseract'']),
         (''pacman'', [''sudo'', ''pacman'', ''-Sy'', ''--noconfirm'', ''tesseract'', ''tesseract-data-eng'']),
         (''zypper'', [''sudo'', ''zypper'', ''install'', ''-y'', ''tesseract-ocr'']),
         (''choco'', [''choco'', ''install'', ''-y'', ''tesseract''])]"
    and det: "fst (detect_pkg_manager h) = Inr pm"
    and st: "starts E cmd None h"
    and pr: "programs E cmd None h = (r, h1)"
    and rc: "returncode r \<noteq> 0"
  shows "install_tesseract E h =
     (Inl (SystemExit 1), h1,
      [Stdout (ansi_c E ''0;32'' ''==>'' @ '' '' @ ''Installing Tesseract using package manager: '' @ pm),
       Spawn (PyList cmd) None,
       Stderr (ansi_c E ''0;31'' ''error:'' @ '' '' @ ''Failed to install Tesseract: ''
               @ str_CalledProcessError E (PyList cmd) (returncode r))])"
proof -
  from tab have "(pm = ''brew'' \<and> cmd = [''brew'', ''install'', ''tesseract''])
      \<or> (pm = ''apt-get'' \<and> cmd = [''sudo'', ''apt-get'', ''update'', ''-q''])
      \<or> (pm = ''dnf'' \<and> cmd = [''sudo'', ''dnf'', ''install'', ''-y'', ''tesseract''])
      \<or> (pm = ''yum'' \<and> cmd = [''sudo'', ''yum'', ''install'', ''-y'', ''tesseract''])
      \<or> (pm = ''pacman'' \<and> cmd = [''sudo'', ''pacman'', ''-Sy'', ''--noconfirm'', ''tesseract'', ''tesseract-data-eng''])
      \<or> (pm = ''zypper'' \<and> cmd = [''sudo'', ''zypper'', ''install'', ''-y'', ''tesseract-ocr''])
      \<or> (pm = ''choco'' \<and> cmd = [''choco'', ''install'', ''-y'', ''tesseract''])"
    by (simp only: list.set insert_iff empty_iff prod.inject simp_thms)
  then show ?thesis
  proof (elim disjE conjE)
    assume a: "pm = ''brew''" "cmd = [''brew'', ''install'', ''tesseract'']"
    from det st pr rc show ?thesis unfolding a by (rule provision_fails_brew)
  next
    assume a: "pm = ''apt-get''" "cmd = [''sudo'', ''apt-get'', ''update'', ''-q'']"
    from det st pr rc show ?thesis unfolding a by (rule provision_fails_apt_get)
  next
    assume a: "pm = ''dnf''" "cmd = [''sudo'', ''dnf'', ''install'', ''-y'', ''tesseract'']"
    from det st pr rc show ?thesis unfolding a by (rule provision_fails_dnf)
  next
    assume a: "pm = ''yum''" "cmd = [''sudo'', ''yum'', ''install'', ''-y'', ''tesseract'']"
    from det st pr rc show ?thesis unfolding a by (rule provision_fails_yum)
  next
    assume a: "pm = ''pacman''" "cmd = [''sudo'', ''pacman'', ''-Sy'', ''--noconfirm'', ''tesseract'', ''tesseract-data-eng'']"
    from det st pr rc show ?thesis unfolding a by (rule provision_fails_pacman)
  next
    assume a: "pm = ''zypper''" "cmd = [''sudo'', ''zypper'', ''install'', ''-y'', ''tesseract-ocr'']"
    from det st pr rc show ?thesis unfolding a by (rule provision_fails_zypper)
  next
    assume a: "pm = ''choco''" "cmd = [''choco'', ''install'', ''-y'', ''tesseract'']"
    from det st pr rc show ?thesis unfolding a by (rule provision_fails_choco)
  qed
qed

lemma install_tesseract_apt_install_fails:
  assumes det: "fst (detect_pkg_manager h) = Inr ''apt-get''"
    and st: "starts E [''sudo'', ''apt-get'', ''update'', ''-q''] None h"
    and pr: "programs E [''sudo'', ''apt-get'', ''update'', ''-q''] None h = (r, h1)"
    and rc: "returncode r = 0"
    and st2: "starts E [''sudo'', ''apt-get'', ''install'', ''-y'', ''tesseract-ocr''] None h1"
    and pr2: "programs E [''sudo'', ''apt-get'', ''install'', ''-y'', ''tesseract-ocr''] None h1 = (r2, h2)"
    and rc2: "returncode r2 \<noteq> 0"
  shows "install_tesseract E h =
     (Inl (SystemExit 1), h2,
      [Stdout (ansi_c E ''0;32'' ''==>'' @ '' '' @ ''Installing Tesseract using package manager: apt-get''),
       Spawn (PyList [''sudo'', ''apt-get'', ''update'', ''-q'']) None,
       Spawn (PyList [''sudo'', ''apt-get'', ''install'', ''-y'', ''tesseract-ocr'']) None,
       Stderr (ansi_c E ''0;31'' ''error:'' @ '' '' @ ''Failed to install Tesseract: ''
               @ str_CalledProcessError E
                   (PyList [''sudo'', ''apt-get'', ''install'', ''-y'', ''tesseract-ocr'']) (returncode r2))])"
proof -
  have d: "detect_pkg_manager h = (Inr ''apt-get'', h, [])" using det by (rule detect_result)
  have c1: "install_cmd E [''sudo'', ''apt-get'', ''update'', ''-q''] h
      = (Inr (), h1, [Spawn (PyList [''sudo'', ''apt-get'', ''update'', ''-q'']) None])"
    using st pr rc by (simp add: install_cmd_result)
  have c2: "install_cmd E [''sudo'', ''apt-get'', ''install'', ''-y'', ''tesseract-ocr''] h1
      = (Inl (CalledProcessError (PyList [''sudo'', ''apt-get'', ''install'', ''-y'', ''tesseract-ocr''])
               (returncode r2)), h2,
         [Spawn (PyList [''sudo'', ''apt-get'', ''install'', ''-y'', ''tesseract-ocr'']) None])"
    using st2 pr2 rc2 by (simp add: install_cmd_result)
  from d c1 c2 show ?thesis
    by (simp add: install_tesseract_def try_except_CalledProcessError_def die_def error_def
        info_def prog_defs)
qed

lemma build_first_fails:
  assumes "starts E [''go'', ''mod'', ''tidy'', ''-e''] (Some (SRC_DIR E)) h"
    and "programs E [''go'', ''mod'', ''tidy'', ''-e''] (Some (SRC_DIR E)) h = (r, h1)"
    and "returncode r \<noteq> 0"
  shows "build E h =
     (Inl (SystemExit 1), h1,
      [Stdout (ansi_c E ''0;32'' ''==>'' @ '' '' @ ''Building '' @ BIN_NAME E @ ''...''),
       Spawn (PyTuple [''go'', ''mod'', ''tidy'', ''-e'']) (Some (SRC_DIR E)),
       Stderr (ansi_c E ''0;31'' ''error:'' @ '' '' @ ''Build failed: ''
               @ str_CalledProcessError E (PyTuple [''go'', ''mod'', ''tidy'', ''-e'']) (returncode r))])"
  using assms run_result [OF assms(1,2)]
  by (simp add: build_def try_except_CalledProcessError_def run_def info_def
      die_def error_def prog_defs)

lemma build_second_fails:
  assumes "starts E [''go'', ''mod'', ''tidy'', ''-e''] (Some (SRC_DIR E)) h"
    and "programs E [''go'', ''mod'', ''tidy'', ''-e''] (Some (SRC_DIR E)) h = (r, h1)"
    and "returncode r = 0"
    and "starts E [''go'', ''build'', ''-ldflags=-s -w'', ''-o='' @ BIN_NAME E, ''.''] (Some (SRC_DIR E)) h1"
    and "programs E [''go'', ''build'', ''-ldflags=-s -w'', ''-o='' @ BIN_NAME E, ''.'']
           (Some (SRC_DIR E)) h1 = (r2, h2)"
    and "returncode r2 \<noteq> 0"
  shows "build E h =
     (Inl (SystemExit 1), h2,
      [Stdout (ansi_c E ''0;32'' ''==>'' @ '' '' @ ''Building '' @ BIN_NAME E @ ''...''),
       Spawn (PyTuple [''go'', ''mod'', ''tidy'', ''-e'']) (Some (SRC_DIR E)),
       Spawn (PyTuple [''go'', ''build'', ''-ldflags=-s -w'', ''-o='' @ BIN_NAME E, ''.''])
         (Some (SRC_DIR E)),
       Stderr (ansi_c E ''0;31'' ''error:'' @ '' '' @ ''Build failed: ''
               @ str_CalledProcessError E
                   (PyTuple [''go'', ''build'', ''-ldflags=-s -w'', ''-o='' @ BIN_NAME E, ''.''])
                   (returncode r2))])"
  using assms run_result [OF assms(1,2)] run_result [OF assms(4,5)]
  by (simp add: build_def try_except_CalledProcessError_def run_def info_def
      die_def error_def prog_defs)

lemma check_go_parse_fails:
  assumes "on_path h ''go''"
    and "programs E [''go'', ''version''] None h = (r, h1)"
    and "returncode r = 0"
    and "parse_version (int_max_str_digits E) (stdout r) = Inl e"
  shows "check_go E h = (Inl e, h1, [Spawn (PyTuple [''go'', ''version'']) None])"
  using assms
  by (simp add: check_go_def run_def subprocess_run_def spawn_error_def prog_defs)

lemma file_step_errors:
  "Path_mkdir E parents exist_ok p h = (Inl (SystemExit n), h1) \<Longrightarrow> False"
  "copy2 E src dst h = (Inl (SystemExit n), h1) \<Longrightarrow> False"
  "chmod E p m h = (Inl (SystemExit n), h1) \<Longrightarrow> False"
  using Path_mkdir_error [of E parents exist_ok p h n] copy2_error [of E src dst h n]
    chmod_error [of E p m h n]
  by auto

lemma install_binary_error:
  "install_binary E b d h = (Inl e, h1, ev) \<Longrightarrow> e \<noteq> SystemExit n"
  by (auto simp: install_binary_def and_then_def file_op_def info_def emit_def return_def Let_def
      split: sum.splits prod.splits if_splits dest: file_step_errors)

text \<open>
  C4, as amended. The failures the script handles end the process through \<open>die\<close>: whenever
  the run ends through \<^verbatim>\<open>sys.exit\<close>, the exit status is 1 and the script has printed exactly one
  line on the error stream, \<open>error:\<close> and a message, and nothing else there. That is the end
  of a missing toolchain, of a toolchain older than 1.24, and of a package-manager or build
  command that exits with a status other than 0 (no \<^verbatim>\<open>CalledProcessError\<close> leaves the
  provisioner or the builder). A failure to parse the version and a failure of the install
  step are not handled: the exception leaves \<open>main\<close>, the script prints nothing on the error
  stream, and the process ends with the interpreter's traceback and exit status 1.
\<close>

theorem handled_failures_one_line:
  "(\<forall>n h1 ev. main E a h = (Inl (SystemExit n), h1, ev) \<longrightarrow>
        script E a h = (1, h1, ev)
      \<and> (\<exists>msg. stderr_of ev = [ansi_c E ''0;31'' ''error:'' @ '' '' @ msg]))
   \<and> (\<forall>e h1 ev. main E a h = (Inl e, h1, ev) \<and> (\<forall>n. e \<noteq> SystemExit n) \<longrightarrow>
        script E a h = (1, h1, ev @ [Traceback e]) \<and> stderr_of ev = [])
   \<and> (\<not> on_path h ''go'' \<longrightarrow> fst (check_go E h) = Inl (SystemExit 1))
   \<and> (\<forall>r h1 v major minor.
        on_path h ''go'' \<and> programs E [''go'', ''version''] None h = (r, h1) \<and> returncode r = 0
        \<and> parse_version (int_max_str_digits E) (stdout r) = Inr (v, major, minor)
        \<and> too_old major minor
        \<longrightarrow> fst (check_go E h) = Inl (SystemExit 1))
   \<and> (\<forall>cmd rc. fst (install_tesseract E h) \<noteq> Inl (CalledProcessError cmd rc)
               \<and> fst (build E h) \<noteq> Inl (CalledProcessError cmd rc))
   \<and> (\<forall>pm cmd r h1.
        (pm, cmd) \<in> set
           [(''brew'', [''brew'', ''install'', ''tesseract'']),
            (''apt-get'', [''sudo'', ''apt-get'', ''update'', ''-q'']),
            (''dnf'', [''sudo'', ''dnf'', ''install'', ''-y'', ''tesseract'']),
            (''yum'', [''sudo'', ''yum'', ''install'', ''-y'', ''tesseract'']),
            (''pacman'', [''sudo'', ''pacman'', ''-Sy'', ''--noconfirm'', ''tesseract'', ''tesseract-data-eng'']),
            (''zypper'', [''sudo'', ''zypper'', ''install'', ''-y'', ''tesseract-ocr'']),
            (''choco'', [''choco'', ''install'', ''-y'', ''tesseract''])]
        \<and> fst (detect_pkg_manager h) = Inr pm
        \<and> starts E cmd None h \<and> programs E cmd None h = (r, h1) \<and> returncode r \<noteq> 0
        \<longrightarrow> install_tesseract E h =
              (Inl (SystemExit 1), h1,
               [Stdout (ansi_c E ''0;32'' ''==>'' @ '' ''
                        @ ''Installing Tesseract using package manager: '' @ pm),
                Spawn (PyList cmd) None,
                Stderr (ansi_c E ''0;31'' ''error:'' @ '' '' @ ''Failed to install Tesseract: ''
                        @ str_CalledProcessError E (PyList cmd) (returncode r))]))
   \<and> (\<forall>r h1 r2 h2.
        fst (detect_pkg_manager h) = Inr ''apt-get''
        \<and> starts E [''sudo'', ''apt-get'', ''update'', ''-q''] None h
        \<and> programs E [''sudo'', ''apt-get'', ''update'', ''-q''] None h = (r, h1)
        \<and> returncode r = 0
        \<and> starts E [''sudo'', ''apt-get'', ''install'', ''-y'', ''tesseract-ocr''] None h1
        \<and> programs E [''sudo'', ''apt-get'', ''install'', ''-y'', ''tesseract-ocr''] None h1 = (r2, h2)
        \<and> returncode r2 \<noteq> 0
        \<longrightarrow> install_tesseract E h =
              (Inl (SystemExit 1), h2,
               [Stdout (ansi_c E ''0;32'' ''==>'' @ '' ''
                        @ ''Installing Tesseract using package manager: apt-get''),
                Spawn (PyList [''sudo'', ''apt-get'', ''update'', ''-q'']) None,
                Spawn (PyList [''sudo'', ''apt-get'', ''install'', ''-y'', ''tesseract-ocr'']) None,
                Stderr (ansi_c E ''0;31'' ''error:'' @ '' '' @ ''Failed to install Tesseract: ''
                        @ str_CalledProcessError E
                            (PyList [''sudo'', ''apt-get'', ''install'', ''-y'', ''tesseract-ocr''])
                            (returncode r2))]))
   \<and> (\<forall>r h1.
        starts E [''go'', ''mod'', ''tidy'', ''-e''] (Some (SRC_DIR E)) h
        \<and> programs E [''go'', ''mod'', ''tidy'', ''-e''] (Some (SRC_DIR E)) h = (r, h1)
        \<and> returncode r \<noteq> 0
        \<longrightarrow> build E h =
              (Inl (SystemExit 1), h1,
               [Stdout (ansi_c E ''0;32'' ''==>'' @ '' '' @ ''Building '' @ BIN_NAME E @ ''...''),
                Spawn (PyTuple [''go'', ''mod'', ''tidy'', ''-e'']) (Some (SRC_DIR E)),
                Stderr (ansi_c E ''0;31'' ''error:'' @ '' '' @ ''Build failed: ''
                        @ str_CalledProcessError E (PyTuple [''go'', ''mod'', ''tidy'', ''-e''])
                            (returncode r))]))
   \<and> (\<forall>r h1 r2 h2.
        starts E [''go'', ''mod'', ''tidy'', ''-e''] (Some (SRC_DIR E)) h
        \<and> programs E [''go'', ''mod'', ''tidy'', ''-e''] (Some (SRC_DIR E)) h = (r, h1)
        \<and> returncode r = 0
        \<and> starts E [''go'', ''build'', ''-ldflags=-s -w'', ''-o='' @ BIN_NAME E, ''.'']
              (Some (SRC_DIR E)) h1
        \<and> programs E [''go'', ''build'', ''-ldflags=-s -w'', ''-o='' @ BIN_NAME E, ''.'']
              (Some (SRC_DIR E)) h1 = (r2, h2)
        \<and> returncode r2 \<noteq> 0
        \<longrightarrow> build E h =
              (Inl (SystemExit 1), h2,
               [Stdout (ansi_c E ''0;32'' ''==>'' @ '' '' @ ''Building '' @ BIN_NAME E @ ''...''),
                Spawn (PyTuple [''go'', ''mod'', ''tidy'', ''-e'']) (Some (SRC_DIR E)),
                Spawn (PyTuple [''go'', ''build'', ''-ldflags=-s -w'', ''-o='' @ BIN_NAME E, ''.''])
                  (Some (SRC_DIR E)),
                Stderr (ansi_c E ''0;31'' ''error:'' @ '' '' @ ''Build failed: ''
                        @ str_CalledProcessError E
                            (PyTuple [''go'', ''build'', ''-ldflags=-s -w'', ''-o='' @ BIN_NAME E, ''.''])
                            (returncode r2))]))
   \<and> (\<forall>r h1 e.
        on_path h ''go'' \<and> programs E [''go'', ''version''] None h = (r, h1) \<and> returncode r = 0
        \<and> parse_version (int_max_str_digits E) (stdout r) = Inl e
        \<longrightarrow> script E a h = (1, h1, [Spawn (PyTuple [''go'', ''version'']) None, Traceback e]))
   \<and> (\<forall>b d e h1 ev n. install_binary E b d h = (Inl e, h1, ev) \<longrightarrow> e \<noteq> SystemExit n)"
proof (intro conjI allI impI)
  fix n h1 ev
  assume m: "main E a h = (Inl (SystemExit n), h1, ev)"
  from tidy_main [of E a] have "outcome_ok E (main E a h)" unfolding tidy_def by blast
  with m have ok: "n = 1 \<and> (\<exists>msg. stderr_of ev = [ansi_c E ''0;31'' ''error:'' @ '' '' @ msg])"
    by (simp add: outcome_ok_exit)
  with m show "script E a h = (1, h1, ev)" by (simp add: script_def)
  from ok show "\<exists>msg. stderr_of ev = [ansi_c E ''0;31'' ''error:'' @ '' '' @ msg]" by blast
next
  fix e h1 ev
  assume m: "main E a h = (Inl e, h1, ev) \<and> (\<forall>n. e \<noteq> SystemExit n)"
  then show "script E a h = (1, h1, ev @ [Traceback e])"
    by (cases e) (simp_all add: script_def)
  from tidy_main [of E a] have "outcome_ok E (main E a h)" unfolding tidy_def by blast
  with m show "stderr_of ev = []" by (simp add: outcome_ok_other)
next
  assume "\<not> on_path h ''go''"
  then show "fst (check_go E h) = Inl (SystemExit 1)" by (simp add: check_go_missing)
next
  fix r h1 v major minor
  assume "on_path h ''go'' \<and> programs E [''go'', ''version''] None h = (r, h1) \<and> returncode r = 0
        \<and> parse_version (int_max_str_digits E) (stdout r) = Inr (v, major, minor)
        \<and> too_old major minor"
  then show "fst (check_go E h) = Inl (SystemExit 1)"
    using check_go_parsed [of h E r h1 v major minor] by simp
next
  fix cmd rc
  show "fst (install_tesseract E h) \<noteq> Inl (CalledProcessError cmd rc)"
    using contained_install_tesseract [of E] unfolding contained_def by blast
  show "fst (build E h) \<noteq> Inl (CalledProcessError cmd rc)"
    using contained_build [of E] unfolding contained_def by blast
next
  fix pm cmd r h1
  assume hyp: "(pm, cmd) \<in> set
           [(''brew'', [''brew'', ''install'', ''tesseract'']),
            (''apt-get'', [''sudo'', ''apt-get'', ''update'', ''-q'']),
            (''dnf'', [''sudo'', ''dnf'', ''install'', ''-y'', ''tesseract'']),
            (''yum'', [''sudo'', ''yum'', ''install'', ''-y'', ''tesseract'']),
            (''pacman'', [''sudo'', ''pacman'', ''-Sy'', ''--noconfirm'', ''tesseract'', ''tesseract-data-eng'']),
            (''zypper'', [''sudo'', ''zypper'', ''install'', ''-y'', ''tesseract-ocr'']),
            (''choco'', [''choco'', ''install'', ''-y'', ''tesseract''])]
        \<and> fst (detect_pkg_manager h) = Inr pm
        \<and> starts E cmd None h \<and> programs E cmd None h = (r, h1) \<and> returncode r \<noteq> 0"
  show "install_tesseract E h =
              (Inl (SystemExit 1), h1,
               [Stdout (ansi_c E ''0;32'' ''==>'' @ '' ''
                        @ ''Installing Tesseract using package manager: '' @ pm),
                Spawn (PyList cmd) None,
                Stderr (ansi_c E ''0;31'' ''error:'' @ '' '' @ ''Failed to install Tesseract: ''
                        @ str_CalledProcessError E (PyList cmd) (returncode r))])"
    by (rule install_tesseract_first_fails [OF hyp [THEN conjunct1] hyp [THEN conjunct2, THEN conjunct1] hyp [THEN conjunct2, THEN conjunct2, THEN conjunct1] hyp [THEN conjunct2, THEN conjunct2, THEN conjunct2, THEN conjunct1] hyp [THEN conjunct2, THEN conjunct2, THEN conjunct2, THEN conjunct2]])
next
  fix r h1 r2 h2
  assume hyp: "fst (detect_pkg_manager h) = Inr ''apt-get''
        \<and> starts E [''sudo'', ''apt-get'', ''update'', ''-q''] None h
        \<and> programs E [''sudo'', ''apt-get'', ''update'', ''-q''] None h = (r, h1)
        \<and> returncode r = 0
        \<and> starts E [''sudo'', ''apt-get'', ''install'', ''-y'', ''tesseract-ocr''] None h1
        \<and> programs E [''sudo'', ''apt-get'', ''install'', ''-y'', ''tesseract-ocr''] None h1 = (r2, h2)
        \<and> returncode r2 \<noteq> 0"
  show "install_tesseract E h =
              (Inl (SystemExit 1), h2,
               [Stdout (ansi_c E ''0;32'' ''==>'' @ '' ''
                        @ ''Installing Tesseract using package manager: apt-get''),
                Spawn (PyList [''sudo'', ''apt-get'', ''update'', ''-q'']) None,
                Spawn (PyList [''sudo'', ''apt-get'', ''install'', ''-y'', ''tesseract-ocr'']) None,
                Stderr (ansi_c E ''0;31'' ''error:'' @ '' '' @ ''Failed to install Tesseract: ''
                        @ str_CalledProcessError E
                            (PyList [''sudo'', ''apt-get'', ''install'', ''-y'', ''tesseract-ocr''])
                            (returncode r2))])"
    by (rule install_tesseract_apt_install_fails [OF hyp [THEN conjunct1] hyp [THEN conjunct2, THEN conjunct1] hyp [THEN conjunct2, THEN conjunct2, THEN conjunct1] hyp [THEN conjunct2, THEN conjunct2, THEN conjunct2, THEN conjunct1] hyp [THEN conjunct2, THEN conjunct2, THEN conjunct2, THEN conjunct2, THEN conjunct1] hyp [THEN conjunct2, THEN conjunct2, THEN conjunct2, THEN conjunct2, THEN conjunct2, THEN conjunct1] hyp [THEN conjunct2, THEN conjunct2, THEN conjunct2, THEN conjunct2, THEN conjunct2, THEN conjunct2]])
next
  fix r h1
  assume hyp: "starts E [''go'', ''mod'', ''tidy'', ''-e''] (Some (SRC_DIR E)) h
        \<and> programs E [''go'', ''mod'', ''tidy'', ''-e''] (Some (SRC_DIR E)) h = (r, h1)
        \<and> returncode r \<noteq> 0"
  show "build E h =
              (Inl (SystemExit 1), h1,
               [Stdout (ansi_c E ''0;32'' ''==>'' @ '' '' @ ''Building '' @ BIN_NAME E @ ''...''),
                Spawn (PyTuple [''go'', ''mod'', ''tidy'', ''-e'']) (Some (SRC_DIR E)),
                Stderr (ansi_c E ''0;31'' ''error:'' @ '' '' @ ''Build failed: ''
                        @ str_CalledProcessError E (PyTuple [''go'', ''mod'', ''tidy'', ''-e''])
                            (returncode r))])"
    by (rule build_first_fails [OF hyp [THEN conjunct1] hyp [THEN conjunct2, THEN conjunct1] hyp [THEN conjunct2, THEN conjunct2]])
next
  fix r h1 r2 h2
  assume hyp: "starts E [''go'', ''mod'', ''tidy'', ''-e''] (Some (SRC_DIR E)) h
        \<and> programs E [''go'', ''mod'', ''tidy'', ''-e''] (Some (SRC_DIR E)) h = (r, h1)
        \<and> returncode r = 0
        \<and> starts E [''go'', ''build'', ''-ldflags=-s -w'', ''-o='' @ BIN_NAME E, ''.'']
              (Some (SRC_DIR E)) h1
        \<and> programs E [''go'', ''build'', ''-ldflags=-s -w'', ''-o='' @ BIN_NAME E, ''.'']
              (Some (SRC_DIR E)) h1 = (r2, h2)
        \<and> returncode r2 \<noteq> 0"
  show "build E h =
              (Inl (SystemExit 1), h2,
               [Stdout (ansi_c E ''0;32'' ''==>'' @ '' '' @ ''Building '' @ BIN_NAME E @ ''...''),
                Spawn (PyTuple [''go'', ''mod'', ''tidy'', ''-e'']) (Some (SRC_DIR E)),
                Spawn (PyTuple [''go'', ''build'', ''-ldflags=-s -w'', ''-o='' @ BIN_NAME E, ''.''])
                  (Some (SRC_DIR E)),
                Stderr (ansi_c E ''0;31'' ''error:'' @ '' '' @ ''Build failed: ''
                        @ str_CalledProcessError E
                            (PyTuple [''go'', ''build'', ''-ldflags=-s -w'', ''-o='' @ BIN_NAME E, ''.''])
                            (returncode r2))])"
    by (rule build_second_fails [OF hyp [THEN conjunct1] hyp [THEN conjunct2, THEN conjunct1] hyp [THEN conjunct2, THEN conjunct2, THEN conjunct1] hyp [THEN conjunct2, THEN conjunct2, THEN conjunct2, THEN conjunct1] hyp [THEN conjunct2, THEN conjunct2, THEN conjunct2, THEN conjunct2, THEN conjunct1] hyp [THEN conjunct2, THEN conjunct2, THEN conjunct2, THEN conjunct2, THEN conjunct2]])
next
  fix r h1 e
  assume p: "on_path h ''go'' \<and> programs E [''go'', ''version''] None h = (r, h1) \<and> returncode r = 0
        \<and> parse_version (int_max_str_digits E) (stdout r) = Inl e"
  then have c: "check_go E h = (Inl e, h1, [Spawn (PyTuple [''go'', ''version'']) None])"
    using check_go_parse_fails [of h E r h1 e] by simp
  from p have "e = IndexError \<or> e = ValueError" by (auto dest: parse_version_error)
  with c show "script E a h = (1, h1, [Spawn (PyTuple [''go'', ''version'']) None, Traceback e])"
    by (auto simp: script_def main_def and_then_def)
next
  fix b d e h1 ev n
  assume "install_binary E b d h = (Inl e, h1, ev)"
  then show "e \<noteq> SystemExit n" by (rule install_binary_error)
qed

lemma old_go_run:
  "fst (main (linux_env ''go version go1.9.7 linux/amd64\<newline>'')
      \<lparr>with_ocr = False, prefix = Path [] ''/'' [''opt'', ''bin'']\<rparr> repo_host)
   = Inl (SystemExit 1)"
  by code_simp

theorem handled_failures_one_line_witness:
  "fst (script (linux_env ''go version go1.9.7 linux/amd64\<newline>'')
      \<lparr>with_ocr = False, prefix = Path [] ''/'' [''opt'', ''bin'']\<rparr> repo_host) = 1
   \<and> (\<exists>msg. stderr_of (snd (snd (script (linux_env ''go version go1.9.7 linux/amd64\<newline>'')
      \<lparr>with_ocr = False, prefix = Path [] ''/'' [''opt'', ''bin'']\<rparr> repo_host)))
        = [''error: '' @ msg])"
proof -
  let ?E = "linux_env ''go version go1.9.7 linux/amd64\<newline>''"
  let ?a = "\<lparr>with_ocr = False, prefix = Path [] ''/'' [''opt'', ''bin'']\<rparr>"
  let ?h = "repo_host"
  obtain h1 ev where run: "main ?E ?a ?h = (Inl (SystemExit 1), h1, ev)"
    using old_go_run by (cases "main ?E ?a ?h") auto
  have c: "ansi_c ?E ''0;31'' ''error:'' = ''error:''"
    by (simp add: ansi_c_def USE_COLOR_def linux_env_def)
  have "script ?E ?a ?h = (1, h1, ev)
      \<and> (\<exists>msg. stderr_of ev = [ansi_c ?E ''0;31'' ''error:'' @ '' '' @ msg])"
    by (rule handled_failures_one_line [of ?E ?a ?h, THEN conjunct1, rule_format, OF run])
  then show ?thesis unfolding c by auto
qed

text \<open>
  C4 as stated fails: a development toolchain reports \<open>devel\<close> in the third field; the
  conversion to an integer raises \<open>ValueError\<close>, which nothing catches. The process ends with a
  traceback and no formatted line.
\<close>

theorem parse_failure_traceback_counterexample:
  "fst (script (linux_env ''go version devel go1.25-abc123 linux/amd64\<newline>'')
      \<lparr>with_ocr = False, prefix = Path [] ''/'' [''opt'', ''bin'']\<rparr> repo_host) = 1
   \<and> snd (snd (script (linux_env ''go version devel go1.25-abc123 linux/amd64\<newline>'')
      \<lparr>with_ocr = False, prefix = Path [] ''/'' [''opt'', ''bin'']\<rparr> repo_host))
      = [Spawn (PyTuple [''go'', ''version'']) None, Traceback ValueError]
   \<and> stderr_of (snd (snd (script (linux_env ''go version devel go1.25-abc123 linux/amd64\<newline>'')
      \<lparr>with_ocr = False, prefix = Path [] ''/'' [''opt'', ''bin'']\<rparr> repo_host))) = []"
  by code_simp

end
